theory Spec2Isabelle
  imports Complex_Main "HOL-Library.Sublist"
begin

section \<open>Theme tokens, theme styles and the editor state\<close>

text \<open>
  A token set (\<open>ThemeStyleProps\<close> in \<open>types/theme.ts\<close>) is a JavaScript object whose
  properties are strings: a map from token names to values. A missing property reads as
  \<open>undefined\<close>, here \<open>None\<close>.

  \<open>ThemeStyles\<close> is the pair of the light and the dark token set. The type declaration
  makes both mandatory, but the stylesheet generator checks at run time that both keys
  are there and a preset may leave out either of them, so each is optional in the model.
\<close>

type_synonym ThemeStyleProps = "string \<rightharpoonup> string"

record ThemeStyles =
  light :: "ThemeStyleProps option"
  dark :: "ThemeStyleProps option"

datatype ThemeMode = Light | Dark

record ThemeEditorState =
  styles :: ThemeStyles
  currentMode :: ThemeMode
  preset :: "string option"

text \<open>
  \<open>ThemePreset\<close>: the field \<open>styles\<close> of the source is \<open>preset_styles\<close> here, since
  the editor state has a field of that name too.
\<close>

record ThemePreset =
  label :: "string option"
  createdAt :: "string option"
  preset_styles :: ThemeStyles

text \<open>The errors the modelled functions can raise.\<close>

datatype js_error =
    TypeError
  | InvalidThemeStyles
  | InvalidColorInput

text \<open>\<open>styles[mode]\<close>\<close>

fun mode_styles :: "ThemeStyles \<Rightarrow> ThemeMode \<Rightarrow> ThemeStyleProps option" where
  "mode_styles s Light = light s"
| "mode_styles s Dark = dark s"

text \<open>Object spread \<open>{...x}\<close> of a token set that may be \<open>undefined\<close>.\<close>

fun object_spread :: "ThemeStyleProps option \<Rightarrow> ThemeStyleProps" where
  "object_spread None = Map.empty"
| "object_spread (Some m) = m"

subsection \<open>The default theme (\<open>config/theme.ts\<close>)\<close>

definition COMMON_STYLES :: "string list" where
  "COMMON_STYLES =
    [''font-sans'', ''font-serif'', ''font-mono'', ''radius'', ''shadow-opacity'',
     ''shadow-blur'', ''shadow-spread'', ''shadow-offset-x'', ''shadow-offset-y'',
     ''letter-spacing'', ''spacing'']"

definition DEFAULT_FONT_SANS :: string where
  "DEFAULT_FONT_SANS =
    ''ui-sans-serif, system-ui, -apple-system, BlinkMacSystemFont, 'Segoe UI', Roboto, 'Helvetica Neue', Arial, 'Noto Sans', sans-serif, 'Apple Color Emoji', 'Segoe UI Emoji', 'Segoe UI Symbol', 'Noto Color Emoji'' @ [CHR 0x27]"

definition DEFAULT_FONT_SERIF :: string where
  \<open>DEFAULT_FONT_SERIF =
    ''ui-serif, Georgia, Cambria, "Times New Roman", Times, serif''\<close>

definition DEFAULT_FONT_MONO :: string where
  \<open>DEFAULT_FONT_MONO =
    ''ui-monospace, SFMono-Regular, Menlo, Monaco, Consolas, "Liberation Mono", "Courier New", monospace''\<close>

definition defaultLightThemeStyles_entries :: "(string \<times> string) list" where
  "defaultLightThemeStyles_entries =
    [(''background'', ''hsl(0 0% 100%)''),
     (''foreground'', ''hsl(0 0% 14.5%)''),
     (''card'', ''hsl(0 0% 100%)''),
     (''card-foreground'', ''hsl(0 0% 14.5%)''),
     (''popover'', ''hsl(0 0% 100%)''),
     (''popover-foreground'', ''hsl(0 0% 14.5%)''),
     (''primary'', ''hsl(0 0% 20.5%)''),
     (''primary-foreground'', ''hsl(0 0% 98.5%)''),
     (''secondary'', ''hsl(0 0% 97%)''),
     (''secondary-foreground'', ''hsl(0 0% 20.5%)''),
     (''muted'', ''hsl(0 0% 97%)''),
     (''muted-foreground'', ''hsl(0 0% 55.6%)''),
     (''accent'', ''hsl(0 0% 97%)''),
     (''accent-foreground'', ''hsl(0 0% 20.5%)''),
     (''destructive'', ''hsl(0 80% 57.7%)''),
     (''destructive-foreground'', ''hsl(0 0% 100%)''),
     (''border'', ''hsl(0 0% 92.2%)''),
     (''input'', ''hsl(0 0% 92.2%)''),
     (''ring'', ''hsl(0 0% 70.8%)''),
     (''chart-1'', ''hsl(41 78% 64.6%)''),
     (''chart-2'', ''hsl(185 68% 60%)''),
     (''chart-3'', ''hsl(227 65% 39.8%)''),
     (''chart-4'', ''hsl(84 63% 82.8%)''),
     (''chart-5'', ''hsl(70 68% 76.9%)''),
     (''radius'', ''0.625rem''),
     (''sidebar'', ''hsl(0 0% 98.5%)''),
     (''sidebar-foreground'', ''hsl(0 0% 14.5%)''),
     (''sidebar-primary'', ''hsl(0 0% 20.5%)''),
     (''sidebar-primary-foreground'', ''hsl(0 0% 98.5%)''),
     (''sidebar-accent'', ''hsl(0 0% 97%)''),
     (''sidebar-accent-foreground'', ''hsl(0 0% 20.5%)''),
     (''sidebar-border'', ''hsl(0 0% 92.2%)''),
     (''sidebar-ring'', ''hsl(0 0% 70.8%)''),
     (''font-sans'', DEFAULT_FONT_SANS),
     (''font-serif'', DEFAULT_FONT_SERIF),
     (''font-mono'', DEFAULT_FONT_MONO),
     (''shadow-color'', ''hsl(0 0% 0%)''),
     (''shadow-opacity'', ''0.1''),
     (''shadow-blur'', ''3px''),
     (''shadow-spread'', ''0px''),
     (''shadow-offset-x'', ''0''),
     (''shadow-offset-y'', ''1px''),
     (''letter-spacing'', ''0em''),
     (''spacing'', ''0.25rem'')]"

definition defaultDarkThemeStyles_entries :: "(string \<times> string) list" where
  "defaultDarkThemeStyles_entries =
    [(''background'', ''hsl(240 10% 3.9%)''),
     (''foreground'', ''hsl(0 0% 98%)''),
     (''card'', ''hsl(240 10% 3.9%)''),
     (''card-foreground'', ''hsl(0 0% 98%)''),
     (''popover'', ''hsl(240 10% 3.9%)''),
     (''popover-foreground'', ''hsl(0 0% 98%)''),
     (''primary'', ''hsl(0 0% 98%)''),
     (''primary-foreground'', ''hsl(240 5.9% 10%)''),
     (''secondary'', ''hsl(240 3.7% 15.9%)''),
     (''secondary-foreground'', ''hsl(0 0% 98%)''),
     (''muted'', ''hsl(240 3.7% 15.9%)''),
     (''muted-foreground'', ''hsl(240 5% 64.9%)''),
     (''accent'', ''hsl(240 3.7% 15.9%)''),
     (''accent-foreground'', ''hsl(0 0% 98%)''),
     (''destructive'', ''hsl(0 62.8% 30.6%)''),
     (''destructive-foreground'', ''hsl(0 85.7% 97.3%)''),
     (''border'', ''hsl(240 3.7% 15.9%)''),
     (''input'', ''hsl(240 3.7% 15.9%)''),
     (''ring'', ''hsl(240 4.9% 83.9%)''),
     (''chart-1'', ''hsl(220 70% 50%)''),
     (''chart-2'', ''hsl(160 60% 45%)''),
     (''chart-3'', ''hsl(30 80% 55%)''),
     (''chart-4'', ''hsl(280 65% 60%)''),
     (''chart-5'', ''hsl(340 75% 55%)''),
     (''radius'', ''0.625rem''),
     (''sidebar'', ''hsl(240 5.9% 10%)''),
     (''sidebar-foreground'', ''hsl(240 4.8% 95.9%)''),
     (''sidebar-primary'', ''hsl(224.3 76.3% 48%)''),
     (''sidebar-primary-foreground'', ''hsl(0 0% 100%)''),
     (''sidebar-accent'', ''hsl(240 3.7% 15.9%)''),
     (''sidebar-accent-foreground'', ''hsl(240 4.8% 95.9%)''),
     (''sidebar-border'', ''hsl(240 3.7% 15.9%)''),
     (''sidebar-ring'', ''hsl(240 4.9% 83.9%)''),
     (''shadow-color'', ''hsl(0 0% 0%)''),
     (''letter-spacing'', ''0em''),
     (''spacing'', ''0.25rem'')]"


definition defaultLightThemeStyles :: ThemeStyleProps where
  "defaultLightThemeStyles = map_of defaultLightThemeStyles_entries"

text \<open>The dark set spreads the light one and overrides part of it.\<close>

definition defaultDarkThemeStyles :: ThemeStyleProps where
  "defaultDarkThemeStyles = defaultLightThemeStyles ++ map_of defaultDarkThemeStyles_entries"

definition defaultThemeStyles :: ThemeStyles where
  "defaultThemeStyles =
    \<lparr>light = Some defaultLightThemeStyles, dark = Some defaultDarkThemeStyles\<rparr>"

text \<open>
  \<open>defaultThemeState\<close> reads the system colour scheme of the browser; the answer of
  \<open>window.matchMedia("(prefers-color-scheme: dark)")\<close> is the parameter. The object has
  no \<open>preset\<close> property.
\<close>

definition defaultThemeState :: "bool \<Rightarrow> ThemeEditorState" where
  "defaultThemeState prefersDark =
    \<lparr>styles = defaultThemeStyles,
     currentMode = (if prefersDark then Dark else Light),
     preset = None\<rparr>"

subsection \<open>The preset catalog (\<open>utils/theme-presets.ts\<close>)\<close>

definition preset_modern_minimal_light :: "(string \<times> string) list" where
  "preset_modern_minimal_light =
    [(''background'', ''#ffffff''),
     (''foreground'', ''#333333''),
     (''card'', ''#ffffff''),
     (''card-foreground'', ''#333333''),
     (''popover'', ''#ffffff''),
     (''popover-foreground'', ''#333333''),
     (''primary'', ''#3b82f6''),
     (''primary-foreground'', ''#ffffff''),
     (''secondary'', ''#f3f4f6''),
     (''secondary-foreground'', ''#4b5563''),
     (''muted'', ''#f9fafb''),
     (''muted-foreground'', ''#6b7280''),
     (''accent'', ''#e0f2fe''),
     (''accent-foreground'', ''#1e3a8a''),
     (''destructive'', ''#ef4444''),
     (''destructive-foreground'', ''#ffffff''),
     (''border'', ''#e5e7eb''),
     (''input'', ''#e5e7eb''),
     (''ring'', ''#3b82f6''),
     (''chart-1'', ''#3b82f6''),
     (''chart-2'', ''#2563eb''),
     (''chart-3'', ''#1d4ed8''),
     (''chart-4'', ''#1e40af''),
     (''chart-5'', ''#1e3a8a''),
     (''radius'', ''0.375rem''),
     (''sidebar'', ''#f9fafb''),
     (''sidebar-foreground'', ''#333333''),
     (''sidebar-primary'', ''#3b82f6''),
     (''sidebar-primary-foreground'', ''#ffffff''),
     (''sidebar-accent'', ''#e0f2fe''),
     (''sidebar-accent-foreground'', ''#1e3a8a''),
     (''sidebar-border'', ''#e5e7eb''),
     (''sidebar-ring'', ''#3b82f6''),
     (''font-sans'', ''Inter, sans-serif''),
     (''font-serif'', ''Source Serif 4, serif''),
     (''font-mono'', ''JetBrains Mono, monospace'')]"

definition preset_modern_minimal_dark :: "(string \<times> string) list" where
  "preset_modern_minimal_dark =
    [(''background'', ''#171717''),
     (''foreground'', ''#e5e5e5''),
     (''card'', ''#262626''),
     (''card-foreground'', ''#e5e5e5''),
     (''popover'', ''#262626''),
     (''popover-foreground'', ''#e5e5e5''),
     (''primary'', ''#3b82f6''),
     (''primary-foreground'', ''#ffffff''),
     (''secondary'', ''#262626''),
     (''secondary-foreground'', ''#e5e5e5''),
     (''muted'', ''#262626''),
     (''muted-foreground'', ''#a3a3a3''),
     (''accent'', ''#1e3a8a''),
     (''accent-foreground'', ''#bfdbfe''),
     (''destructive'', ''#ef4444''),
     (''destructive-foreground'', ''#ffffff''),
     (''border'', ''#404040''),
     (''input'', ''#404040''),
     (''ring'', ''#3b82f6''),
     (''chart-1'', ''#60a5fa''),
     (''chart-2'', ''#3b82f6''),
     (''chart-3'', ''#2563eb''),
     (''chart-4'', ''#1d4ed8''),
     (''chart-5'', ''#1e40af''),
     (''radius'', ''0.375rem''),
     (''sidebar'', ''#171717''),
     (''sidebar-foreground'', ''#e5e5e5''),
     (''sidebar-primary'', ''#3b82f6''),
     (''sidebar-primary-foreground'', ''#ffffff''),
     (''sidebar-accent'', ''#1e3a8a''),
     (''sidebar-accent-foreground'', ''#bfdbfe''),
     (''sidebar-border'', ''#404040''),
     (''sidebar-ring'', ''#3b82f6'')]"

definition preset_modern_minimal :: ThemePreset where
  "preset_modern_minimal =
    \<lparr>label = Some ''Modern Minimal'', createdAt = None,
     preset_styles = \<lparr>light = Some (map_of preset_modern_minimal_light), dark = Some (map_of preset_modern_minimal_dark)\<rparr>\<rparr>"

definition preset_t3_chat_light :: "(string \<times> string) list" where
  "preset_t3_chat_light =
    [(''background'', ''#faf5fa''),
     (''foreground'', ''#501854''),
     (''card'', ''#faf5fa''),
     (''card-foreground'', ''#501854''),
     (''popover'', ''#ffffff''),
     (''popover-foreground'', ''#501854''),
     (''primary'', ''#a84370''),
     (''primary-foreground'', ''#ffffff''),
     (''secondary'', ''#f1c4e6''),
     (''secondary-foreground'', ''#77347c''),
     (''muted'', ''#f6e5f3''),
     (''muted-foreground'', ''#834588''),
     (''accent'', ''#f1c4e6''),
     (''accent-foreground'', ''#77347c''),
     (''destructive'', ''#ab4347''),
     (''destructive-foreground'', ''#ffffff''),
     (''border'', ''#efbdeb''),
     (''input'', ''#e7c1dc''),
     (''ring'', ''#db2777''),
     (''chart-1'', ''#d926a2''),
     (''chart-2'', ''#6c12b9''),
     (''chart-3'', ''#274754''),
     (''chart-4'', ''#e8c468''),
     (''chart-5'', ''#f4a462''),
     (''sidebar'', ''#f3e4f6''),
     (''sidebar-foreground'', ''#ac1668''),
     (''sidebar-primary'', ''#454554''),
     (''sidebar-primary-foreground'', ''#faf1f7''),
     (''sidebar-accent'', ''#f8f8f7''),
     (''sidebar-accent-foreground'', ''#454554''),
     (''sidebar-border'', ''#eceae9''),
     (''sidebar-ring'', ''#db2777''),
     (''radius'', ''0.5rem'')]"

definition preset_t3_chat_dark :: "(string \<times> string) list" where
  "preset_t3_chat_dark =
    [(''background'', ''#221d27''),
     (''foreground'', ''#d2c4de''),
     (''card'', ''#2c2632''),
     (''card-foreground'', ''#dbc5d2''),
     (''popover'', ''#100a0e''),
     (''popover-foreground'', ''#f8f1f5''),
     (''primary'', ''#a3004c''),
     (''primary-foreground'', ''#efc0d8''),
     (''secondary'', ''#362d3d''),
     (''secondary-foreground'', ''#d4c7e1''),
     (''muted'', ''#28222d''),
     (''muted-foreground'', ''#c2b6cf''),
     (''accent'', ''#463753''),
     (''accent-foreground'', ''#f8f1f5''),
     (''destructive'', ''#301015''),
     (''destructive-foreground'', ''#ffffff''),
     (''border'', ''#3b3237''),
     (''input'', ''#3e343c''),
     (''ring'', ''#db2777''),
     (''chart-1'', ''#a84370''),
     (''chart-2'', ''#934dcb''),
     (''chart-3'', ''#e88c30''),
     (''chart-4'', ''#af57db''),
     (''chart-5'', ''#e23670''),
     (''sidebar'', ''#181117''),
     (''sidebar-foreground'', ''#e0cad6''),
     (''sidebar-primary'', ''#1d4ed8''),
     (''sidebar-primary-foreground'', ''#ffffff''),
     (''sidebar-accent'', ''#261922''),
     (''sidebar-accent-foreground'', ''#f4f4f5''),
     (''sidebar-border'', ''#000000''),
     (''sidebar-ring'', ''#db2777'')]"

definition preset_t3_chat :: ThemePreset where
  "preset_t3_chat =
    \<lparr>label = Some ''T3 Chat'', createdAt = Some ''2025-04-19'',
     preset_styles = \<lparr>light = Some (map_of preset_t3_chat_light), dark = Some (map_of preset_t3_chat_dark)\<rparr>\<rparr>"

definition preset_bubblegum_light :: "(string \<times> string) list" where
  "preset_bubblegum_light =
    [(''background'', ''#f6e6ee''),
     (''foreground'', ''#5b5b5b''),
     (''card'', ''#fdedc9''),
     (''card-foreground'', ''#5b5b5b''),
     (''popover'', ''#ffffff''),
     (''popover-foreground'', ''#5b5b5b''),
     (''primary'', ''#d04f99''),
     (''primary-foreground'', ''#ffffff''),
     (''secondary'', ''#8acfd1''),
     (''secondary-foreground'', ''#333333''),
     (''muted'', ''#b2e1eb''),
     (''muted-foreground'', ''#7a7a7a''),
     (''accent'', ''#fbe2a7''),
     (''accent-foreground'', ''#333333''),
     (''destructive'', ''#f96f70''),
     (''destructive-foreground'', ''#ffffff''),
     (''border'', ''#d04f99''),
     (''input'', ''#e4e4e4''),
     (''ring'', ''#e670ab''),
     (''chart-1'', ''#e670ab''),
     (''chart-2'', ''#84d2e2''),
     (''chart-3'', ''#fbe2a7''),
     (''chart-4'', ''#f3a0ca''),
     (''chart-5'', ''#d7488e''),
     (''sidebar'', ''#f8d8ea''),
     (''sidebar-foreground'', ''#333333''),
     (''sidebar-primary'', ''#ec4899''),
     (''sidebar-primary-foreground'', ''#ffffff''),
     (''sidebar-accent'', ''#f9a8d4''),
     (''sidebar-accent-foreground'', ''#333333''),
     (''sidebar-border'', ''#f3e8ff''),
     (''sidebar-ring'', ''#ec4899''),
     (''font-sans'', ''Poppins, sans-serif''),
     (''font-serif'', ''Lora, serif''),
     (''font-mono'', ''Fira Code, monospace''),
     (''radius'', ''0.4rem''),
     (''shadow-color'', ''hsl(325.78 58.18% 56.86% / 0.5)''),
     (''shadow-opacity'', ''1.0''),
     (''shadow-blur'', ''0px''),
     (''shadow-spread'', ''0px''),
     (''shadow-offset-x'', ''3px''),
     (''shadow-offset-y'', ''3px'')]"

definition preset_bubblegum_dark :: "(string \<times> string) list" where
  "preset_bubblegum_dark =
    [(''background'', ''#12242e''),
     (''foreground'', ''#f3e3ea''),
     (''card'', ''#1c2e38''),
     (''card-foreground'', ''#f3e3ea''),
     (''popover'', ''#1c2e38''),
     (''popover-foreground'', ''#f3e3ea''),
     (''primary'', ''#fbe2a7''),
     (''primary-foreground'', ''#12242e''),
     (''secondary'', ''#e4a2b1''),
     (''secondary-foreground'', ''#12242e''),
     (''muted'', ''#24272b''),
     (''muted-foreground'', ''#e4a2b1''),
     (''accent'', ''#c67b96''),
     (''accent-foreground'', ''#f3e3ea''),
     (''destructive'', ''#e35ea4''),
     (''destructive-foreground'', ''#12242e''),
     (''border'', ''#324859''),
     (''input'', ''#20333d''),
     (''ring'', ''#50afb6''),
     (''chart-1'', ''#50afb6''),
     (''chart-2'', ''#e4a2b1''),
     (''chart-3'', ''#c67b96''),
     (''chart-4'', ''#175c6c''),
     (''chart-5'', ''#24272b''),
     (''sidebar'', ''#101f28''),
     (''sidebar-foreground'', ''#f3f4f6''),
     (''sidebar-primary'', ''#ec4899''),
     (''sidebar-primary-foreground'', ''#ffffff''),
     (''sidebar-accent'', ''#f9a8d4''),
     (''sidebar-accent-foreground'', ''#1f2937''),
     (''sidebar-border'', ''#374151''),
     (''sidebar-ring'', ''#ec4899''),
     (''font-sans'', ''Poppins, sans-serif''),
     (''font-serif'', ''Lora, serif''),
     (''font-mono'', ''Fira Code, monospace''),
     (''shadow-color'', ''#324859'')]"

definition preset_bubblegum :: ThemePreset where
  "preset_bubblegum =
    \<lparr>label = Some ''Bubblegum'', createdAt = Some ''2025-04-18'',
     preset_styles = \<lparr>light = Some (map_of preset_bubblegum_light), dark = Some (map_of preset_bubblegum_dark)\<rparr>\<rparr>"

definition preset_catppuccin_light :: "(string \<times> string) list" where
  "preset_catppuccin_light =
    [(''background'', ''#eff1f5''),
     (''foreground'', ''#4c4f69''),
     (''card'', ''#ffffff''),
     (''card-foreground'', ''#4c4f69''),
     (''popover'', ''#ccd0da''),
     (''popover-foreground'', ''#4c4f69''),
     (''primary'', ''#8839ef''),
     (''primary-foreground'', ''#ffffff''),
     (''secondary'', ''#ccd0da''),
     (''secondary-foreground'', ''#4c4f69''),
     (''muted'', ''#dce0e8''),
     (''muted-foreground'', ''#6c6f85''),
     (''accent'', ''#04a5e5''),
     (''accent-foreground'', ''#ffffff''),
     (''destructive'', ''#d20f39''),
     (''destructive-foreground'', ''#ffffff''),
     (''border'', ''#bcc0cc''),
     (''input'', ''#ccd0da''),
     (''ring'', ''#8839ef''),
     (''chart-1'', ''#8839ef''),
     (''chart-2'', ''#04a5e5''),
     (''chart-3'', ''#40a02b''),
     (''chart-4'', ''#fe640b''),
     (''chart-5'', ''#dc8a78''),
     (''sidebar'', ''#e6e9ef''),
     (''sidebar-foreground'', ''#4c4f69''),
     (''sidebar-primary'', ''#8839ef''),
     (''sidebar-primary-foreground'', ''#ffffff''),
     (''sidebar-accent'', ''#04a5e5''),
     (''sidebar-accent-foreground'', ''#ffffff''),
     (''sidebar-border'', ''#bcc0cc''),
     (''sidebar-ring'', ''#8839ef''),
     (''font-sans'', ''Montserrat, sans-serif''),
     (''font-serif'', ''Georgia, serif''),
     (''font-mono'', ''Fira Code, monospace''),
     (''radius'', ''0.35rem''),
     (''shadow-color'', ''hsl(240 30% 25%)''),
     (''shadow-opacity'', ''0.12''),
     (''shadow-blur'', ''6px''),
     (''shadow-spread'', ''0px''),
     (''shadow-offset-x'', ''0px''),
     (''shadow-offset-y'', ''4px'')]"

definition preset_catppuccin_dark :: "(string \<times> string) list" where
  "preset_catppuccin_dark =
    [(''background'', ''#181825''),
     (''foreground'', ''#cdd6f4''),
     (''card'', ''#1e1e2e''),
     (''card-foreground'', ''#cdd6f4''),
     (''popover'', ''#45475a''),
     (''popover-foreground'', ''#cdd6f4''),
     (''primary'', ''#cba6f7''),
     (''primary-foreground'', ''#1e1e2e''),
     (''secondary'', ''#585b70''),
     (''secondary-foreground'', ''#cdd6f4''),
     (''muted'', ''#292c3c''),
     (''muted-foreground'', ''#a6adc8''),
     (''accent'', ''#89dceb''),
     (''accent-foreground'', ''#1e1e2e''),
     (''destructive'', ''#f38ba8''),
     (''destructive-foreground'', ''#1e1e2e''),
     (''border'', ''#313244''),
     (''input'', ''#313244''),
     (''ring'', ''#cba6f7''),
     (''chart-1'', ''#cba6f7''),
     (''chart-2'', ''#89dceb''),
     (''chart-3'', ''#a6e3a1''),
     (''chart-4'', ''#fab387''),
     (''chart-5'', ''#f5e0dc''),
     (''sidebar'', ''#11111b''),
     (''sidebar-foreground'', ''#cdd6f4''),
     (''sidebar-primary'', ''#cba6f7''),
     (''sidebar-primary-foreground'', ''#1e1e2e''),
     (''sidebar-accent'', ''#89dceb''),
     (''sidebar-accent-foreground'', ''#1e1e2e''),
     (''sidebar-border'', ''#45475a''),
     (''sidebar-ring'', ''#cba6f7'')]"

definition preset_catppuccin :: ThemePreset where
  "preset_catppuccin =
    \<lparr>label = Some ''Catppuccin'', createdAt = Some ''2025-04-18'',
     preset_styles = \<lparr>light = Some (map_of preset_catppuccin_light), dark = Some (map_of preset_catppuccin_dark)\<rparr>\<rparr>"

definition preset_graphite_light :: "(string \<times> string) list" where
  "preset_graphite_light =
    [(''background'', ''#f0f0f0''),
     (''foreground'', ''#333333''),
     (''card'', ''#f5f5f5''),
     (''card-foreground'', ''#333333''),
     (''popover'', ''#f5f5f5''),
     (''popover-foreground'', ''#333333''),
     (''primary'', ''#606060''),
     (''primary-foreground'', ''#ffffff''),
     (''secondary'', ''#e0e0e0''),
     (''secondary-foreground'', ''#333333''),
     (''muted'', ''#d9d9d9''),
     (''muted-foreground'', ''#666666''),
     (''accent'', ''#c0c0c0''),
     (''accent-foreground'', ''#333333''),
     (''destructive'', ''#cc3333''),
     (''destructive-foreground'', ''#ffffff''),
     (''border'', ''#d0d0d0''),
     (''input'', ''#e0e0e0''),
     (''ring'', ''#606060''),
     (''chart-1'', ''#606060''),
     (''chart-2'', ''#476666''),
     (''chart-3'', ''#909090''),
     (''chart-4'', ''#a8a8a8''),
     (''chart-5'', ''#c0c0c0''),
     (''sidebar'', ''#eaeaea''),
     (''sidebar-foreground'', ''#333333''),
     (''sidebar-primary'', ''#606060''),
     (''sidebar-primary-foreground'', ''#ffffff''),
     (''sidebar-accent'', ''#c0c0c0''),
     (''sidebar-accent-foreground'', ''#333333''),
     (''sidebar-border'', ''#d0d0d0''),
     (''sidebar-ring'', ''#606060''),
     (''font-sans'', ''Montserrat, sans-serif''),
     (''font-serif'', ''Georgia, serif''),
     (''font-mono'', ''Fira Code, monospace''),
     (''radius'', ''0.35rem''),
     (''shadow-color'', ''hsl(0 0% 20% / 0.1)''),
     (''shadow-opacity'', ''0.15''),
     (''shadow-blur'', ''0px''),
     (''shadow-spread'', ''0px''),
     (''shadow-offset-x'', ''0px''),
     (''shadow-offset-y'', ''2px'')]"

definition preset_graphite_dark :: "(string \<times> string) list" where
  "preset_graphite_dark =
    [(''background'', ''#1a1a1a''),
     (''foreground'', ''#d9d9d9''),
     (''card'', ''#202020''),
     (''card-foreground'', ''#d9d9d9''),
     (''popover'', ''#202020''),
     (''popover-foreground'', ''#d9d9d9''),
     (''primary'', ''#a0a0a0''),
     (''primary-foreground'', ''#1a1a1a''),
     (''secondary'', ''#303030''),
     (''secondary-foreground'', ''#d9d9d9''),
     (''muted'', ''#2a2a2a''),
     (''muted-foreground'', ''#808080''),
     (''accent'', ''#404040''),
     (''accent-foreground'', ''#d9d9d9''),
     (''destructive'', ''#e06666''),
     (''destructive-foreground'', ''#ffffff''),
     (''border'', ''#353535''),
     (''input'', ''#303030''),
     (''ring'', ''#a0a0a0''),
     (''chart-1'', ''#a0a0a0''),
     (''chart-2'', ''#7e9ca0''),
     (''chart-3'', ''#707070''),
     (''chart-4'', ''#585858''),
     (''chart-5'', ''#404040''),
     (''sidebar'', ''#1f1f1f''),
     (''sidebar-foreground'', ''#d9d9d9''),
     (''sidebar-primary'', ''#a0a0a0''),
     (''sidebar-primary-foreground'', ''#1a1a1a''),
     (''sidebar-accent'', ''#404040''),
     (''sidebar-accent-foreground'', ''#d9d9d9''),
     (''sidebar-border'', ''#353535''),
     (''sidebar-ring'', ''#a0a0a0''),
     (''font-sans'', ''Inter, sans-serif''),
     (''font-serif'', ''Georgia, serif''),
     (''font-mono'', ''Fira Code, monospace'')]"

definition preset_graphite :: ThemePreset where
  "preset_graphite =
    \<lparr>label = Some ''Graphite'', createdAt = Some ''2025-04-17'',
     preset_styles = \<lparr>light = Some (map_of preset_graphite_light), dark = Some (map_of preset_graphite_dark)\<rparr>\<rparr>"

definition preset_perpetuity_light :: "(string \<times> string) list" where
  "preset_perpetuity_light =
    [(''background'', ''#e8f0f0''),
     (''foreground'', ''#0a4a55''),
     (''card'', ''#f2f7f7''),
     (''card-foreground'', ''#0a4a55''),
     (''popover'', ''#f2f7f7''),
     (''popover-foreground'', ''#0a4a55''),
     (''primary'', ''#06858e''),
     (''primary-foreground'', ''#ffffff''),
     (''secondary'', ''#d9eaea''),
     (''secondary-foreground'', ''#0a4a55''),
     (''muted'', ''#e0eaea''),
     (''muted-foreground'', ''#427a7e''),
     (''accent'', ''#c9e5e7''),
     (''accent-foreground'', ''#0a4a55''),
     (''destructive'', ''#d13838''),
     (''destructive-foreground'', ''#ffffff''),
     (''border'', ''#cde0e2''),
     (''input'', ''#d9eaea''),
     (''ring'', ''#06858e''),
     (''chart-1'', ''#06858e''),
     (''chart-2'', ''#1e9ea6''),
     (''chart-3'', ''#37b6be''),
     (''chart-4'', ''#5dc7ce''),
     (''chart-5'', ''#8ad8dd''),
     (''sidebar'', ''#daebed''),
     (''sidebar-foreground'', ''#0a4a55''),
     (''sidebar-primary'', ''#06858e''),
     (''sidebar-primary-foreground'', ''#ffffff''),
     (''sidebar-accent'', ''#c9e5e7''),
     (''sidebar-accent-foreground'', ''#0a4a55''),
     (''sidebar-border'', ''#cde0e2''),
     (''sidebar-ring'', ''#06858e''),
     (''font-sans'', ''Courier New, monospace''),
     (''font-serif'', ''Courier New, monospace''),
     (''font-mono'', ''Courier New, monospace''),
     (''radius'', ''0.125rem''),
     (''shadow-color'', ''hsl(185 70% 30% / 0.15)''),
     (''shadow-opacity'', ''0.15''),
     (''shadow-blur'', ''2px''),
     (''shadow-spread'', ''0px''),
     (''shadow-offset-x'', ''1px''),
     (''shadow-offset-y'', ''1px'')]"

definition preset_perpetuity_dark :: "(string \<times> string) list" where
  "preset_perpetuity_dark =
    [(''background'', ''#0a1a20''),
     (''foreground'', ''#4de8e8''),
     (''card'', ''#0c2025''),
     (''card-foreground'', ''#4de8e8''),
     (''popover'', ''#0c2025''),
     (''popover-foreground'', ''#4de8e8''),
     (''primary'', ''#4de8e8''),
     (''primary-foreground'', ''#0a1a20''),
     (''secondary'', ''#164955''),
     (''secondary-foreground'', ''#4de8e8''),
     (''muted'', ''#0f3039''),
     (''muted-foreground'', ''#36a5a5''),
     (''accent'', ''#164955''),
     (''accent-foreground'', ''#4de8e8''),
     (''destructive'', ''#e83c3c''),
     (''destructive-foreground'', ''#f2f2f2''),
     (''border'', ''#164955''),
     (''input'', ''#164955''),
     (''ring'', ''#4de8e8''),
     (''chart-1'', ''#4de8e8''),
     (''chart-2'', ''#36a5a5''),
     (''chart-3'', ''#2d8a8a''),
     (''chart-4'', ''#19595e''),
     (''chart-5'', ''#0e383c''),
     (''sidebar'', ''#0a1a20''),
     (''sidebar-foreground'', ''#4de8e8''),
     (''sidebar-primary'', ''#4de8e8''),
     (''sidebar-primary-foreground'', ''#0a1a20''),
     (''sidebar-accent'', ''#164955''),
     (''sidebar-accent-foreground'', ''#4de8e8''),
     (''sidebar-border'', ''#164955''),
     (''sidebar-ring'', ''#4de8e8''),
     (''font-sans'', ''Source Code Pro, monospace''),
     (''font-serif'', ''Source Code Pro, monospace''),
     (''font-mono'', ''Source Code Pro, monospace''),
     (''radius'', ''0.125rem''),
     (''shadow-color'', ''hsl(180 70% 60% / 0.2)''),
     (''shadow-opacity'', ''0.2''),
     (''shadow-blur'', ''2px''),
     (''shadow-spread'', ''0px''),
     (''shadow-offset-x'', ''1px''),
     (''shadow-offset-y'', ''1px'')]"

definition preset_perpetuity :: ThemePreset where
  "preset_perpetuity =
    \<lparr>label = Some ''Perpetuity'', createdAt = Some ''2025-04-01'',
     preset_styles = \<lparr>light = Some (map_of preset_perpetuity_light), dark = Some (map_of preset_perpetuity_dark)\<rparr>\<rparr>"

definition preset_kodama_grove_light :: "(string \<times> string) list" where
  "preset_kodama_grove_light =
    [(''background'', ''#e4d7b0''),
     (''foreground'', ''#5c4b3e''),
     (''card'', ''#e7dbbf''),
     (''card-foreground'', ''#5c4b3e''),
     (''popover'', ''#f3ead2''),
     (''popover-foreground'', ''#5c4b3e''),
     (''primary'', ''#8d9d4f''),
     (''primary-foreground'', ''#fdfbf6''),
     (''secondary'', ''#decea0''),
     (''secondary-foreground'', ''#5c4b3e''),
     (''muted'', ''#decea0''),
     (''muted-foreground'', ''#85766a''),
     (''accent'', ''#dbc894''),
     (''accent-foreground'', ''#5c4b3e''),
     (''destructive'', ''#d98b7e''),
     (''destructive-foreground'', ''#faf8f2''),
     (''border'', ''#b19681''),
     (''input'', ''#dbc894''),
     (''ring'', ''#9db18c''),
     (''chart-1'', ''#9db18c''),
     (''chart-2'', ''#8a9f7b''),
     (''chart-3'', ''#bac9b4''),
     (''chart-4'', ''#71856a''),
     (''chart-5'', ''#5e6e58''),
     (''sidebar'', ''#e2d1a2''),
     (''sidebar-foreground'', ''#5c4b3e''),
     (''sidebar-primary'', ''#9db18c''),
     (''sidebar-primary-foreground'', ''#fdfbf6''),
     (''sidebar-accent'', ''#eae5d9''),
     (''sidebar-accent-foreground'', ''#5c4b3e''),
     (''sidebar-border'', ''#e5e0d4''),
     (''sidebar-ring'', ''#9db18c''),
     (''font-sans'', ''Merriweather, serif''),
     (''font-serif'', ''Source Serif 4, serif''),
     (''font-mono'', ''JetBrains Mono, monospace''),
     (''radius'', ''0.425rem''),
     (''shadow-color'', ''hsl(88 22% 35% / 0.15)''),
     (''shadow-opacity'', ''0.15''),
     (''shadow-blur'', ''2px''),
     (''shadow-spread'', ''0px''),
     (''shadow-offset-x'', ''3px''),
     (''shadow-offset-y'', ''3px'')]"

definition preset_kodama_grove_dark :: "(string \<times> string) list" where
  "preset_kodama_grove_dark =
    [(''background'', ''#3a3529''),
     (''foreground'', ''#ede4d4''),
     (''card'', ''#413c33''),
     (''card-foreground'', ''#ede4d4''),
     (''popover'', ''#413c33''),
     (''popover-foreground'', ''#ede4d4''),
     (''primary'', ''#8a9f7b''),
     (''primary-foreground'', ''#2a2521''),
     (''secondary'', ''#5a5345''),
     (''secondary-foreground'', ''#ede4d4''),
     (''muted'', ''#4a4439''),
     (''muted-foreground'', ''#a8a096''),
     (''accent'', ''#a18f5c''),
     (''accent-foreground'', ''#2a2521''),
     (''destructive'', ''#b5766a''),
     (''destructive-foreground'', ''#f0e9db''),
     (''border'', ''#5a5345''),
     (''input'', ''#5a5345''),
     (''ring'', ''#8a9f7b''),
     (''chart-1'', ''#8a9f7b''),
     (''chart-2'', ''#9db18c''),
     (''chart-3'', ''#71856a''),
     (''chart-4'', ''#a18f5c''),
     (''chart-5'', ''#5e6e58''),
     (''sidebar'', ''#3a3529''),
     (''sidebar-foreground'', ''#ede4d4''),
     (''sidebar-primary'', ''#8a9f7b''),
     (''sidebar-primary-foreground'', ''#2a2521''),
     (''sidebar-accent'', ''#a18f5c''),
     (''sidebar-accent-foreground'', ''#2a2521''),
     (''sidebar-border'', ''#5a5345''),
     (''sidebar-ring'', ''#8a9f7b'')]"

definition preset_kodama_grove :: ThemePreset where
  "preset_kodama_grove =
    \<lparr>label = Some ''Kodama Grove'', createdAt = None,
     preset_styles = \<lparr>light = Some (map_of preset_kodama_grove_light), dark = Some (map_of preset_kodama_grove_dark)\<rparr>\<rparr>"

definition presets :: "(string \<times> ThemePreset) list" where
  "presets =
    [(''modern-minimal'', preset_modern_minimal),
     (''t3-chat'', preset_t3_chat),
     (''bubblegum'', preset_bubblegum),
     (''catppuccin'', preset_catppuccin),
     (''graphite'', preset_graphite),
     (''perpetuity'', preset_perpetuity),
     (''kodama-grove'', preset_kodama_grove)]"

text \<open>
  \<open>presets\<close> is an object literal, and \<open>presets[name]\<close> is JavaScript's property read:
  it finds the object's own property of that name, and otherwise the property of that
  name that every plain object inherits from \<open>Object.prototype\<close>. The inherited
  properties are functions (and, for \<open>__proto__\<close>, the prototype object itself): all
  of them are truthy, and none has a \<open>styles\<close> property.
\<close>

definition Object_prototype_keys :: "string list" where
  "Object_prototype_keys =
    [''constructor'', ''hasOwnProperty'', ''isPrototypeOf'', ''propertyIsEnumerable'',
     ''toLocaleString'', ''toString'', ''valueOf'', ''__proto__'',
     ''__defineGetter__'', ''__defineSetter__'', ''__lookupGetter__'', ''__lookupSetter__'']"

datatype 'a js_property = Own 'a | Inherited | Undefined

definition presets_get :: "string \<Rightarrow> ThemePreset js_property" where
  "presets_get name =
    (case map_of presets name of
       Some p \<Rightarrow> Own p
     | None \<Rightarrow> if name \<in> set Object_prototype_keys then Inherited else Undefined)"

text \<open>
  \<open>getPresetThemeStyles\<close>. On an inherited property \<open>!preset\<close> is false,
  \<open>preset.styles\<close> is \<open>undefined\<close> and reading \<open>preset.styles.light\<close> raises a
  \<open>TypeError\<close>.
\<close>

definition getPresetThemeStyles :: "string \<Rightarrow> js_error + ThemeStyles" where
  "getPresetThemeStyles name =
    (let defaultTheme = defaultThemeStyles in
     if name = ''default'' then Inr defaultTheme
     else case presets_get name of
       Undefined \<Rightarrow> Inr defaultTheme
     | Inherited \<Rightarrow> Inl TypeError
     | Own p \<Rightarrow>
         Inr \<lparr>light = Some (object_spread (light defaultTheme) ++ object_spread (light (preset_styles p))),
              dark = Some (object_spread (dark defaultTheme) ++ object_spread (dark (preset_styles p)))\<rparr>)"

subsection \<open>The editor store (\<open>store/editor-store.ts\<close>)\<close>

record EditorStore =
  themeState :: ThemeEditorState
  hasChangedThemeFromDefault :: bool

definition initialStore :: "bool \<Rightarrow> EditorStore" where
  "initialStore prefersDark =
    \<lparr>themeState = defaultThemeState prefersDark, hasChangedThemeFromDefault = False\<rparr>"

definition setThemeState :: "ThemeEditorState \<Rightarrow> EditorStore \<Rightarrow> EditorStore" where
  "setThemeState state store = store\<lparr>themeState := state\<rparr>"

text \<open>
  \<open>applyThemePreset\<close>: an exception of \<open>getPresetThemeStyles\<close> leaves the function
  before \<open>set\<close> is called.
\<close>

definition applyThemePreset :: "string \<Rightarrow> EditorStore \<Rightarrow> js_error + EditorStore" where
  "applyThemePreset name store =
    (case getPresetThemeStyles name of
       Inl e \<Rightarrow> Inl e
     | Inr presetStyles \<Rightarrow>
         Inr \<lparr>themeState = (themeState store)\<lparr>preset := Some name, styles := presetStyles\<rparr>,
              hasChangedThemeFromDefault =
                (if name \<noteq> ''default'' then True else hasChangedThemeFromDefault store)\<rparr>)"

text \<open>\<open>resetToDefault\<close>: \<open>set({ themeState: { ...defaultThemeState, currentMode: mode } })\<close>\<close>

definition resetToDefault :: "bool \<Rightarrow> EditorStore \<Rightarrow> EditorStore" where
  "resetToDefault prefersDark store =
    (let mode = currentMode (themeState store) in
     store\<lparr>themeState := (defaultThemeState prefersDark)\<lparr>currentMode := mode\<rparr>\<rparr>)"

definition resetToCurrentPreset :: "EditorStore \<Rightarrow> js_error + EditorStore" where
  "resetToCurrentPreset store =
    (let ts = themeState store in
     case getPresetThemeStyles (case preset ts of None \<Rightarrow> ''default'' | Some p \<Rightarrow> if p = [] then ''default'' else p) of
       Inl e \<Rightarrow> Inl e
     | Inr presetStyles \<Rightarrow> Inr (store\<lparr>themeState := ts\<lparr>styles := presetStyles\<rparr>\<rparr>))"

text \<open>\<open>isEqual\<close> is deep equality, which on the model's values is equality.\<close>

definition hasDefaultThemeChanged :: "EditorStore \<Rightarrow> bool" where
  "hasDefaultThemeChanged store = (styles (themeState store) \<noteq> defaultThemeStyles)"

subsection \<open>Editing one token (\<open>components/editor/theme-control-panel.tsx\<close>)\<close>

text \<open>
  \<open>updateStyle\<close> builds the styles that it hands to \<open>onChange\<close>; \<open>currentStyles\<close> is
  the default set of the current mode overridden by the current set of that mode.
\<close>

definition currentStyles :: "ThemeStyles \<Rightarrow> ThemeMode \<Rightarrow> ThemeStyleProps" where
  "currentStyles st mode = object_spread (mode_styles defaultThemeStyles mode) ++ object_spread (mode_styles st mode)"

fun set_mode_styles :: "ThemeStyles \<Rightarrow> ThemeMode \<Rightarrow> ThemeStyleProps \<Rightarrow> ThemeStyles" where
  "set_mode_styles st Light m = st\<lparr>light := Some m\<rparr>"
| "set_mode_styles st Dark m = st\<lparr>dark := Some m\<rparr>"

definition updateStyle :: "ThemeStyles \<Rightarrow> ThemeMode \<Rightarrow> string \<Rightarrow> string \<Rightarrow> ThemeStyles" where
  "updateStyle st mode key val =
    (if key \<in> set COMMON_STYLES
     then st\<lparr>light := Some ((object_spread (light st))(key \<mapsto> val)),
             dark := Some ((object_spread (dark st))(key \<mapsto> val))\<rparr>
     else set_mode_styles st mode ((currentStyles st mode)(key \<mapsto> val)))"

text \<open>
  \<open>handleStyleChange\<close> of the editor is the \<open>onChange\<close> of the control panel, which
  receives the styles and the mode of the store's theme state.
\<close>

definition handleStyleChange :: "ThemeStyles \<Rightarrow> EditorStore \<Rightarrow> EditorStore" where
  "handleStyleChange newStyles store = setThemeState ((themeState store)\<lparr>styles := newStyles\<rparr>) store"

text \<open>
  The editor hands the store's styles to the control panel when \<open>isThemeStyles\<close> accepts
  them (both keys are there), and the default styles otherwise.
\<close>

definition isThemeStyles :: "ThemeStyles \<Rightarrow> bool" where
  "isThemeStyles st = (light st \<noteq> None \<and> dark st \<noteq> None)"

definition editToken :: "string \<Rightarrow> string \<Rightarrow> EditorStore \<Rightarrow> EditorStore" where
  "editToken key val store =
    (let ts = themeState store;
         st = (if isThemeStyles (styles ts) then styles ts else defaultThemeStyles)
     in handleStyleChange (updateStyle st (currentMode ts) key val) store)"



section \<open>Colour conversion (\<open>utils/color-converter.ts\<close>)\<close>

subsection \<open>JavaScript numbers\<close>

text \<open>
  The numbers of the program are IEEE doubles, and their arithmetic and printing belong
  to the JavaScript runtime. The model keeps \<open>NaN\<close> apart, since the code's tests
  (\<open>!num\<close>, \<open>num % 1 === 0\<close>) depend on it, and takes the doubles other than \<open>NaN\<close>
  and the runtime's operations on them as parameters.
\<close>

datatype 'n js_number = NaN | Num 'n

record 'n Number_ops =
  is_zero :: "'n \<Rightarrow> bool"
  is_integral :: "'n \<Rightarrow> bool"
  times :: "'n \<Rightarrow> 'n \<Rightarrow> 'n js_number"
  minus :: "'n \<Rightarrow> 'n \<Rightarrow> 'n js_number"
  literal :: "string \<Rightarrow> 'n"
  toString :: "'n \<Rightarrow> string"
  toFixed2 :: "'n \<Rightarrow> string"
  parseFloat :: "string \<Rightarrow> 'n js_number"

text \<open>\<open>a * b\<close> and \<open>a - b\<close>, where \<open>a\<close> may be \<open>undefined\<close> (then the result is \<open>NaN\<close>).\<close>

fun js_times :: "'n Number_ops \<Rightarrow> 'n js_number option \<Rightarrow> 'n js_number \<Rightarrow> 'n js_number" where
  "js_times ops (Some (Num a)) (Num b) = times ops a b"
| "js_times ops _ _ = NaN"

fun js_minus :: "'n Number_ops \<Rightarrow> 'n js_number \<Rightarrow> 'n js_number \<Rightarrow> 'n js_number" where
  "js_minus ops (Num a) (Num b) = minus ops a b"
| "js_minus ops _ _ = NaN"

fun js_toString :: "'n Number_ops \<Rightarrow> 'n js_number \<Rightarrow> string" where
  "js_toString ops NaN = ''NaN''"
| "js_toString ops (Num a) = toString ops a"

fun js_toFixed2 :: "'n Number_ops \<Rightarrow> 'n js_number \<Rightarrow> string" where
  "js_toFixed2 ops NaN = ''NaN''"
| "js_toFixed2 ops (Num a) = toFixed2 ops a"

text \<open>
  \<open>formatNumber\<close>: \<open>!num\<close> holds for \<open>undefined\<close>, \<open>NaN\<close> and zero; \<open>NaN % 1\<close> is
  \<open>NaN\<close>. The number that the source returns when \<open>num % 1 === 0\<close> is printed by the
  template literal of the caller.
\<close>

fun formatNumber :: "'n Number_ops \<Rightarrow> 'n js_number option \<Rightarrow> string" where
  "formatNumber ops None = ''0''"
| "formatNumber ops (Some NaN) = ''0''"
| "formatNumber ops (Some (Num a)) =
    (if is_zero ops a then ''0''
     else if is_integral ops a then toString ops a
     else toFixed2 ops a)"

subsection \<open>The colour library\<close>

text \<open>
  \<open>culori\<close> is a third-party library. Its functions are parameters of the model:
  \<open>parse\<close> returns \<open>undefined\<close> (\<open>None\<close>) for a string that is no colour; the
  components of a converted colour may be \<open>undefined\<close>.
\<close>

record 'n hsl_color =
  hsl_h :: "'n js_number option"
  hsl_s :: "'n js_number option"
  hsl_l :: "'n js_number option"

record 'n oklch_color =
  oklch_l :: "'n js_number option"
  oklch_c :: "'n js_number option"
  oklch_h :: "'n js_number option"

record ('c, 'n) Culori =
  parse :: "string \<Rightarrow> 'c option"
  converter_hsl :: "'c \<Rightarrow> 'n hsl_color"
  converter_oklch :: "'c \<Rightarrow> 'n oklch_color"
  formatRgb :: "'c \<Rightarrow> string"
  formatHex :: "'c \<Rightarrow> string"

text \<open>
  Modelled from the spec: the type \<open>ColorFormat\<close> (its declaration, \<open>types/index.ts\<close>,
  is not among the sources) has the four formats hsl, rgb, oklch and hex.
  \<open>OtherFormat\<close> stands for any other value, which the \<open>default\<close> branch of the switch
  handles.
\<close>

datatype ColorFormat = HSL | RGB | OKLCH | HEX | OtherFormat

datatype TailwindVersion = V3 | V4

text \<open>The body of the \<open>try\<close> block of \<open>colorFormatter\<close>.\<close>

definition colorFormatter_try ::
  "('c, 'n) Culori \<Rightarrow> 'n Number_ops \<Rightarrow> string \<Rightarrow> ColorFormat \<Rightarrow> TailwindVersion \<Rightarrow> js_error + string" where
  "colorFormatter_try cu ops colorValue format tailwindVersion =
    (case parse cu colorValue of
       None \<Rightarrow> Inl InvalidColorInput
     | Some color \<Rightarrow>
        (case format of
           HSL \<Rightarrow>
             (let hsl = converter_hsl cu color in
              if tailwindVersion = V4
              then Inr (''hsl('' @ formatNumber ops (hsl_h hsl) @ '' ''
                        @ formatNumber ops (Some (js_times ops (hsl_s hsl) (Num (literal ops ''100'')))) @ ''% ''
                        @ formatNumber ops (Some (js_times ops (hsl_l hsl) (Num (literal ops ''100'')))) @ ''%)'')
              else Inr (formatNumber ops (hsl_h hsl) @ '' ''
                        @ formatNumber ops (Some (js_times ops (hsl_s hsl) (Num (literal ops ''100'')))) @ ''% ''
                        @ formatNumber ops (Some (js_times ops (hsl_l hsl) (Num (literal ops ''100'')))) @ ''%''))
         | RGB \<Rightarrow> Inr (formatRgb cu color)
         | OKLCH \<Rightarrow>
             (let oklch = converter_oklch cu color in
              Inr (''oklch('' @ formatNumber ops (oklch_l oklch) @ '' ''
                   @ formatNumber ops (oklch_c oklch) @ '' ''
                   @ formatNumber ops (oklch_h oklch) @ '')''))
         | HEX \<Rightarrow> Inr (formatHex cu color)
         | OtherFormat \<Rightarrow> Inr colorValue))"

text \<open>\<open>colorFormatter\<close>: the \<open>catch\<close> block logs the error and returns the input.\<close>

definition colorFormatter ::
  "('c, 'n) Culori \<Rightarrow> 'n Number_ops \<Rightarrow> string \<Rightarrow> ColorFormat \<Rightarrow> TailwindVersion \<Rightarrow> string" where
  "colorFormatter cu ops colorValue format tailwindVersion =
    (case colorFormatter_try cu ops colorValue format tailwindVersion of
       Inl error \<Rightarrow> colorValue
     | Inr formatted \<Rightarrow> formatted)"

section \<open>The shadow map (\<open>utils/shadows.ts\<close>)\<close>

text \<open>A template literal prints \<open>undefined\<close> as the word.\<close>

fun js_str :: "string option \<Rightarrow> string" where
  "js_str None = ''undefined''"
| "js_str (Some v) = v"

text \<open>\<open>s.replace(pat, rep)\<close> with a string pattern replaces the first occurrence.\<close>

fun replace_first :: "string \<Rightarrow> string \<Rightarrow> string \<Rightarrow> string" where
  "replace_first pat rep [] = (if pat = [] then rep else [])"
| "replace_first pat rep (c # cs) =
    (if prefix pat (c # cs) then rep @ drop (length pat) (c # cs)
     else c # replace_first pat rep cs)"

definition shadow_color ::
  "('c, 'n) Culori \<Rightarrow> 'n Number_ops \<Rightarrow> ThemeStyleProps \<Rightarrow> string \<Rightarrow> string" where
  "shadow_color cu ops styles' opacityMultiplier =
    (let hsl = (case styles' ''shadow-color'' of
                  None \<Rightarrow> ''undefined''
                | Some shadowColor \<Rightarrow> colorFormatter cu ops shadowColor HSL V3);
         opacity = parseFloat ops (js_str (styles' ''shadow-opacity''))
     in ''hsl('' @ hsl @ '' / ''
        @ js_toFixed2 ops (js_times ops (Some opacity) (Num (literal ops opacityMultiplier))) @ '')'')"

definition secondLayer ::
  "('c, 'n) Culori \<Rightarrow> 'n Number_ops \<Rightarrow> ThemeStyleProps \<Rightarrow> string \<Rightarrow> string \<Rightarrow> string" where
  "secondLayer cu ops styles' fixedOffsetY fixedBlur =
    (let offsetX2 = js_str (styles' ''shadow-offset-x'');
         offsetY2 = fixedOffsetY;
         blur2 = fixedBlur;
         spread2 = js_toString ops
             (js_minus ops
                (parseFloat ops (case styles' ''shadow-spread'' of
                                   None \<Rightarrow> ''0''
                                 | Some spread \<Rightarrow> replace_first ''px'' [] spread))
                (Num (literal ops ''1''))) @ ''px'';
         color2 = shadow_color cu ops styles' ''1.0''
     in offsetX2 @ '' '' @ offsetY2 @ '' '' @ blur2 @ '' '' @ spread2 @ '' '' @ color2)"

definition firstLayer ::
  "('c, 'n) Culori \<Rightarrow> 'n Number_ops \<Rightarrow> ThemeStyleProps \<Rightarrow> string \<Rightarrow> string" where
  "firstLayer cu ops styles' opacityMultiplier =
    js_str (styles' ''shadow-offset-x'') @ '' '' @ js_str (styles' ''shadow-offset-y'') @ '' ''
    @ js_str (styles' ''shadow-blur'') @ '' '' @ js_str (styles' ''shadow-spread'') @ '' ''
    @ shadow_color cu ops styles' opacityMultiplier"

text \<open>
  \<open>getShadowMap\<close>: the object literal, as the list of its entries in the order of the
  source.
\<close>

definition getShadowMap ::
  "('c, 'n) Culori \<Rightarrow> 'n Number_ops \<Rightarrow> ThemeEditorState \<Rightarrow> (string \<times> string) list" where
  "getShadowMap cu ops themeEditorState =
    (let mode = currentMode themeEditorState;
         styles' = object_spread (mode_styles defaultThemeStyles mode)
                  ++ object_spread (mode_styles (styles themeEditorState) mode)
     in [(''shadow-2xs'', firstLayer cu ops styles' ''0.5''),
         (''shadow-xs'', firstLayer cu ops styles' ''0.5''),
         (''shadow-2xl'', firstLayer cu ops styles' ''2.5''),
         (''shadow-sm'', firstLayer cu ops styles' ''1.0'' @ '', '' @ secondLayer cu ops styles' ''1px'' ''2px''),
         (''shadow'', firstLayer cu ops styles' ''1.0'' @ '', '' @ secondLayer cu ops styles' ''1px'' ''2px''),
         (''shadow-md'', firstLayer cu ops styles' ''1.0'' @ '', '' @ secondLayer cu ops styles' ''2px'' ''4px''),
         (''shadow-lg'', firstLayer cu ops styles' ''1.0'' @ '', '' @ secondLayer cu ops styles' ''4px'' ''6px''),
         (''shadow-xl'', firstLayer cu ops styles' ''1.0'' @ '', '' @ secondLayer cu ops styles' ''8px'' ''10px'')])"


section \<open>The stylesheet generator (\<open>utils/theme-style-generator.ts\<close>)\<close>

text \<open>
  \<open>formatColor\<close> is applied to token values that may be \<open>undefined\<close>;
  \<open>colorFormatter\<close> hands a value that \<open>culori.parse\<close> does not accept back as it is,
  and the template literal prints it.
\<close>

definition formatColor_of ::
  "('c, 'n) Culori \<Rightarrow> 'n Number_ops \<Rightarrow> ColorFormat \<Rightarrow> TailwindVersion \<Rightarrow> string option \<Rightarrow> string" where
  "formatColor_of cu ops colorFormat tailwindVersion color =
    (case color of
       None \<Rightarrow> ''undefined''
     | Some c \<Rightarrow> colorFormatter cu ops c colorFormat tailwindVersion)"

text \<open>
  The generator functions read \<open>themeStyles[mode]\<close> and then its properties; reading
  a property of \<open>undefined\<close> raises a \<open>TypeError\<close>.
\<close>

definition generateColorVariables ::
  "ThemeStyles \<Rightarrow> ThemeMode \<Rightarrow> (string option \<Rightarrow> string) \<Rightarrow> js_error + string" where
  "generateColorVariables themeStyles mode formatColor =
    (case mode_styles themeStyles mode of
       None \<Rightarrow> Inl TypeError
     | Some styles' \<Rightarrow> Inr (
        ''\<newline>  --background: '' @ formatColor (styles' ''background'') @ '';''
        @ ''\<newline>  --foreground: '' @ formatColor (styles' ''foreground'') @ '';''
        @ ''\<newline>  --card: '' @ formatColor (styles' ''card'') @ '';''
        @ ''\<newline>  --card-foreground: '' @ formatColor (styles' ''card-foreground'') @ '';''
        @ ''\<newline>  --popover: '' @ formatColor (styles' ''popover'') @ '';''
        @ ''\<newline>  --popover-foreground: '' @ formatColor (styles' ''popover-foreground'') @ '';''
        @ ''\<newline>  --primary: '' @ formatColor (styles' ''primary'') @ '';''
        @ ''\<newline>  --primary-foreground: '' @ formatColor (styles' ''primary-foreground'') @ '';''
        @ ''\<newline>  --secondary: '' @ formatColor (styles' ''secondary'') @ '';''
        @ ''\<newline>  --secondary-foreground: '' @ formatColor (styles' ''secondary-foreground'') @ '';''
        @ ''\<newline>  --muted: '' @ formatColor (styles' ''muted'') @ '';''
        @ ''\<newline>  --muted-foreground: '' @ formatColor (styles' ''muted-foreground'') @ '';''
        @ ''\<newline>  --accent: '' @ formatColor (styles' ''accent'') @ '';''
        @ ''\<newline>  --accent-foreground: '' @ formatColor (styles' ''accent-foreground'') @ '';''
        @ ''\<newline>  --destructive: '' @ formatColor (styles' ''destructive'') @ '';''
        @ ''\<newline>  --destructive-foreground: '' @ formatColor (styles' ''destructive-foreground'') @ '';''
        @ ''\<newline>  --border: '' @ formatColor (styles' ''border'') @ '';''
        @ ''\<newline>  --input: '' @ formatColor (styles' ''input'') @ '';''
        @ ''\<newline>  --ring: '' @ formatColor (styles' ''ring'') @ '';''
        @ ''\<newline>  --chart-1: '' @ formatColor (styles' ''chart-1'') @ '';''
        @ ''\<newline>  --chart-2: '' @ formatColor (styles' ''chart-2'') @ '';''
        @ ''\<newline>  --chart-3: '' @ formatColor (styles' ''chart-3'') @ '';''
        @ ''\<newline>  --chart-4: '' @ formatColor (styles' ''chart-4'') @ '';''
        @ ''\<newline>  --chart-5: '' @ formatColor (styles' ''chart-5'') @ '';''
        @ ''\<newline>  --sidebar: '' @ formatColor (styles' ''sidebar'') @ '';''
        @ ''\<newline>  --sidebar-foreground: '' @ formatColor (styles' ''sidebar-foreground'') @ '';''
        @ ''\<newline>  --sidebar-primary: '' @ formatColor (styles' ''sidebar-primary'') @ '';''
        @ ''\<newline>  --sidebar-primary-foreground: '' @ formatColor (styles' ''sidebar-primary-foreground'') @ '';''
        @ ''\<newline>  --sidebar-accent: '' @ formatColor (styles' ''sidebar-accent'') @ '';''
        @ ''\<newline>  --sidebar-accent-foreground: '' @ formatColor (styles' ''sidebar-accent-foreground'') @ '';''
        @ ''\<newline>  --sidebar-border: '' @ formatColor (styles' ''sidebar-border'') @ '';''
        @ ''\<newline>  --sidebar-ring: '' @ formatColor (styles' ''sidebar-ring'') @ '';''))"

definition generateFontVariables :: "ThemeStyles \<Rightarrow> ThemeMode \<Rightarrow> js_error + string" where
  "generateFontVariables themeStyles mode =
    (case mode_styles themeStyles mode of
       None \<Rightarrow> Inl TypeError
     | Some styles' \<Rightarrow> Inr (
        ''\<newline>  --font-sans: '' @ js_str (styles' ''font-sans'') @ '';''
        @ ''\<newline>  --font-serif: '' @ js_str (styles' ''font-serif'') @ '';''
        @ ''\<newline>  --font-mono: '' @ js_str (styles' ''font-mono'') @ '';''))"

text \<open>\<open>shadowMap[name]\<close> on the object that \<open>getShadowMap\<close> returns.\<close>

definition generateShadowVariables :: "(string \<times> string) list \<Rightarrow> string" where
  "generateShadowVariables shadowMap =
     ''\<newline>  --shadow-2xs: '' @ js_str (map_of shadowMap ''shadow-2xs'') @ '';''
     @ ''\<newline>  --shadow-xs: '' @ js_str (map_of shadowMap ''shadow-xs'') @ '';''
     @ ''\<newline>  --shadow-sm: '' @ js_str (map_of shadowMap ''shadow-sm'') @ '';''
     @ ''\<newline>  --shadow: '' @ js_str (map_of shadowMap ''shadow'') @ '';''
     @ ''\<newline>  --shadow-md: '' @ js_str (map_of shadowMap ''shadow-md'') @ '';''
     @ ''\<newline>  --shadow-lg: '' @ js_str (map_of shadowMap ''shadow-lg'') @ '';''
     @ ''\<newline>  --shadow-xl: '' @ js_str (map_of shadowMap ''shadow-xl'') @ '';''
     @ ''\<newline>  --shadow-2xl: '' @ js_str (map_of shadowMap ''shadow-2xl'') @ '';''"

definition generateTrackingVariables :: "ThemeStyles \<Rightarrow> js_error + string" where
  "generateTrackingVariables themeStyles =
    (case light themeStyles of
       None \<Rightarrow> Inl TypeError
     | Some styles' \<Rightarrow>
         if styles' ''letter-spacing'' = Some ''0em'' then Inr []
         else Inr (
           ''\<newline>\<newline>  --tracking-tighter: calc(var(--tracking-normal) - 0.05em);''
           @ ''\<newline>  --tracking-tight: calc(var(--tracking-normal) - 0.025em);''
           @ ''\<newline>  --tracking-normal: var(--tracking-normal);''
           @ ''\<newline>  --tracking-wide: calc(var(--tracking-normal) + 0.025em);''
           @ ''\<newline>  --tracking-wider: calc(var(--tracking-normal) + 0.05em);''
           @ ''\<newline>  --tracking-widest: calc(var(--tracking-normal) + 0.1em);''))"

text \<open>
  \<open>generateThemeVariables\<close>. The conditions of \<open>spacingVar\<close> and \<open>trackingVars\<close>
  read the light set only when the mode is light.
\<close>

definition generateThemeVariables ::
  "('c, 'n) Culori \<Rightarrow> 'n Number_ops \<Rightarrow> ThemeStyles \<Rightarrow> ThemeMode
    \<Rightarrow> (string option \<Rightarrow> string) \<Rightarrow> js_error + string" where
  "generateThemeVariables cu ops themeStyles mode formatColor =
    (let selector = (if mode = Dark then ''.dark'' else '':root'') in
     case generateColorVariables themeStyles mode formatColor of
       Inl e \<Rightarrow> Inl e
     | Inr colorVars \<Rightarrow>
     case generateFontVariables themeStyles mode of
       Inl e \<Rightarrow> Inl e
     | Inr fontVars \<Rightarrow>
     case mode_styles themeStyles mode of
       None \<Rightarrow> Inl TypeError
     | Some styles' \<Rightarrow>
       (let radiusVar = ''\<newline>  --radius: '' @ js_str (styles' ''radius'') @ '';'';
            shadowVars = generateShadowVariables
              (getShadowMap cu ops \<lparr>styles = themeStyles, currentMode = mode, preset = None\<rparr>);
            spacingVar =
              (if mode = Light \<and> styles' ''spacing'' \<noteq> defaultLightThemeStyles ''spacing''
               then ''\<newline>  --spacing: '' @ js_str (styles' ''spacing'') @ '';''
               else []);
            trackingVars =
              (if mode = Light \<and> styles' ''letter-spacing'' \<noteq> defaultLightThemeStyles ''letter-spacing''
               then ''\<newline>  --tracking-normal: '' @ js_str (styles' ''letter-spacing'') @ '';''
               else [])
        in Inr (selector @ '' {'' @ colorVars @ fontVars @ radiusVar @ shadowVars
                @ trackingVars @ spacingVar @ ''\<newline>}'')))"

definition generateTailwindV4ThemeInline :: "ThemeStyles \<Rightarrow> js_error + string" where
  "generateTailwindV4ThemeInline themeStyles =
    (case generateTrackingVariables themeStyles of
       Inl e \<Rightarrow> Inl e
     | Inr trackingVariables \<Rightarrow> Inr (
           ''@theme inline {''
           @ ''\<newline>  --color-background: var(--background);''
           @ ''\<newline>  --color-foreground: var(--foreground);''
           @ ''\<newline>  --color-card: var(--card);''
           @ ''\<newline>  --color-card-foreground: var(--card-foreground);''
           @ ''\<newline>  --color-popover: var(--popover);''
           @ ''\<newline>  --color-popover-foreground: var(--popover-foreground);''
           @ ''\<newline>  --color-primary: var(--primary);''
           @ ''\<newline>  --color-primary-foreground: var(--primary-foreground);''
           @ ''\<newline>  --color-secondary: var(--secondary);''
           @ ''\<newline>  --color-secondary-foreground: var(--secondary-foreground);''
           @ ''\<newline>  --color-muted: var(--muted);''
           @ ''\<newline>  --color-muted-foreground: var(--muted-foreground);''
           @ ''\<newline>  --color-accent: var(--accent);''
           @ ''\<newline>  --color-accent-foreground: var(--accent-foreground);''
           @ ''\<newline>  --color-destructive: var(--destructive);''
           @ ''\<newline>  --color-destructive-foreground: var(--destructive-foreground);''
           @ ''\<newline>  --color-border: var(--border);''
           @ ''\<newline>  --color-input: var(--input);''
           @ ''\<newline>  --color-ring: var(--ring);''
           @ ''\<newline>  --color-chart-1: var(--chart-1);''
           @ ''\<newline>  --color-chart-2: var(--chart-2);''
           @ ''\<newline>  --color-chart-3: var(--chart-3);''
           @ ''\<newline>  --color-chart-4: var(--chart-4);''
           @ ''\<newline>  --color-chart-5: var(--chart-5);''
           @ ''\<newline>  --color-sidebar: var(--sidebar);''
           @ ''\<newline>  --color-sidebar-foreground: var(--sidebar-foreground);''
           @ ''\<newline>  --color-sidebar-primary: var(--sidebar-primary);''
           @ ''\<newline>  --color-sidebar-primary-foreground: var(--sidebar-primary-foreground);''
           @ ''\<newline>  --color-sidebar-accent: var(--sidebar-accent);''
           @ ''\<newline>  --color-sidebar-accent-foreground: var(--sidebar-accent-foreground);''
           @ ''\<newline>  --color-sidebar-border: var(--sidebar-border);''
           @ ''\<newline>  --color-sidebar-ring: var(--sidebar-ring);''
           @ ''\<newline>''
           @ ''\<newline>  --font-sans: var(--font-sans);''
           @ ''\<newline>  --font-mono: var(--font-mono);''
           @ ''\<newline>  --font-serif: var(--font-serif);''
           @ ''\<newline>''
           @ ''\<newline>  --radius-sm: calc(var(--radius) - 4px);''
           @ ''\<newline>  --radius-md: calc(var(--radius) - 2px);''
           @ ''\<newline>  --radius-lg: var(--radius);''
           @ ''\<newline>  --radius-xl: calc(var(--radius) + 4px);''
           @ ''\<newline>''
           @ ''\<newline>  --shadow-2xs: var(--shadow-2xs);''
           @ ''\<newline>  --shadow-xs: var(--shadow-xs);''
           @ ''\<newline>  --shadow-sm: var(--shadow-sm);''
           @ ''\<newline>  --shadow: var(--shadow);''
           @ ''\<newline>  --shadow-md: var(--shadow-md);''
           @ ''\<newline>  --shadow-lg: var(--shadow-lg);''
           @ ''\<newline>  --shadow-xl: var(--shadow-xl);''
           @ ''\<newline>  --shadow-2xl: var(--shadow-2xl);''
           @ trackingVariables @ ''\<newline>}''))"

text \<open>
  \<open>generateThemeCode\<close>. The state may be \<open>null\<close> or \<open>undefined\<close> (\<open>None\<close>);
  \<open>"light" in styles\<close> asks whether the key is there.
\<close>

definition generateThemeCode ::
  "('c, 'n) Culori \<Rightarrow> 'n Number_ops \<Rightarrow> ThemeEditorState option \<Rightarrow> ColorFormat
    \<Rightarrow> TailwindVersion \<Rightarrow> js_error + string" where
  "generateThemeCode cu ops themeEditorState colorFormat tailwindVersion =
    (case themeEditorState of
       None \<Rightarrow> Inl InvalidThemeStyles
     | Some state \<Rightarrow>
       if light (styles state) = None \<or> dark (styles state) = None then Inl InvalidThemeStyles
       else
        (let themeStyles = styles state;
             formatColor = formatColor_of cu ops colorFormat tailwindVersion in
         case generateThemeVariables cu ops themeStyles Light formatColor of
           Inl e \<Rightarrow> Inl e
         | Inr lightTheme \<Rightarrow>
         case generateThemeVariables cu ops themeStyles Dark formatColor of
           Inl e \<Rightarrow> Inl e
         | Inr darkTheme \<Rightarrow>
         case (if tailwindVersion = V4
               then (case generateTailwindV4ThemeInline themeStyles of
                       Inl e \<Rightarrow> Inl e
                     | Inr inline \<Rightarrow> Inr (''\<newline>\<newline>'' @ inline))
               else Inr []) of
           Inl e \<Rightarrow> Inl e
         | Inr tailwindV4Theme \<Rightarrow>
         case light themeStyles of
           None \<Rightarrow> Inl TypeError
         | Some lightStyles \<Rightarrow>
           (let bodyLetterSpacing =
              (if lightStyles ''letter-spacing'' \<noteq> Some ''0em''
               then ''\<newline>\<newline>body {\<newline>  letter-spacing: var(--tracking-normal);\<newline>}''
               else [])
            in Inr (lightTheme @ ''\<newline>\<newline>'' @ darkTheme @ tailwindV4Theme @ bodyLetterSpacing))))"


section \<open>The CSS importer (\<open>utils/parse-css-input.ts\<close>)\<close>

text \<open>
  Strings are lists of the 8-bit characters of HOL. The white space of \<open>\s\<close> and of
  \<open>trim\<close> among them: tab, line feed, vertical tab, form feed, carriage return, space
  and the no-break space.
\<close>

definition is_space :: "char \<Rightarrow> bool" where
  "is_space c = (c \<in> set [CHR 0x09, CHR 0x0A, CHR 0x0B, CHR 0x0C, CHR 0x0D, CHR 0x20, CHR 0xA0])"

definition trim :: "string \<Rightarrow> string" where
  "trim s = rev (dropWhile is_space (rev (dropWhile is_space s)))"

text \<open>
  \<open>extractCssBlockContent\<close> matches the regular expression
  \<open>selector\s*{([^}]+)}\<close>, the selector escaped so that it stands for itself.
  \<open>block_at\<close> is the match that starts at the head of the string: every part of the
  expression is greedy and can match in one way only, so there is no backtracking.
  \<open>first_block\<close> is the leftmost match, as \<open>String.prototype.match\<close> finds it.
\<close>

definition block_at :: "string \<Rightarrow> string \<Rightarrow> string option" where
  "block_at selector s =
    (if prefix selector s then
       (case dropWhile is_space (drop (length selector) s) of
          [] \<Rightarrow> None
        | c # body \<Rightarrow>
            if c = CHR ''{'' \<and> takeWhile (\<lambda>x. x \<noteq> CHR ''}'') body \<noteq> []
               \<and> dropWhile (\<lambda>x. x \<noteq> CHR ''}'') body \<noteq> []
            then Some (takeWhile (\<lambda>x. x \<noteq> CHR ''}'') body)
            else None)
     else None)"

fun first_block :: "string \<Rightarrow> string \<Rightarrow> string option" where
  "first_block selector [] = block_at selector []"
| "first_block selector (c # cs) =
    (case block_at selector (c # cs) of
       Some content \<Rightarrow> Some content
     | None \<Rightarrow> first_block selector cs)"

text \<open>\<open>input.match(regex)?.[1]?.trim() || null\<close>: an empty string is falsy.\<close>

definition extractCssBlockContent :: "string \<Rightarrow> string \<Rightarrow> string option" where
  "extractCssBlockContent input selector =
    (case first_block selector input of
       None \<Rightarrow> None
     | Some content \<Rightarrow> if trim content = [] then None else Some (trim content))"

text \<open>
  The declarations: all matches of \<open>--[^:]+:\s*[^;]+\<close>, from left to right.
  \<open>declaration_at\<close> is the match at the head of the string, with the text that follows
  it. The only backtracking is that of \<open>\s*\<close>, which gives its last character to
  \<open>[^;]+\<close> when nothing but a semicolon or the end follows the white space.
\<close>

definition declaration_at :: "string \<Rightarrow> (string \<times> string) option" where
  "declaration_at s =
    (if prefix ''--'' s then
       (let r = drop 2 s;
            name = takeWhile (\<lambda>x. x \<noteq> CHR '':'') r;
            r1 = dropWhile (\<lambda>x. x \<noteq> CHR '':'') r
        in if name = [] \<or> r1 = [] then None
           else
            (let r2 = tl r1;
                 ws = takeWhile is_space r2;
                 r3 = dropWhile is_space r2;
                 val = takeWhile (\<lambda>x. x \<noteq> CHR '';'') r3;
                 r4 = dropWhile (\<lambda>x. x \<noteq> CHR '';'') r3
             in if val \<noteq> [] then Some (''--'' @ name @ '':'' @ ws @ val, r4)
                else if ws \<noteq> [] then Some (''--'' @ name @ '':'' @ ws, r3)
                else None))
     else None)"

function declarations :: "string \<Rightarrow> string list" where
  "declarations [] = []"
| "declarations (c # cs) =
    (case declaration_at (c # cs) of
       Some (matched, rest) \<Rightarrow> matched # declarations rest
     | None \<Rightarrow> declarations cs)"
  by pat_completeness auto

lemma declaration_at_shorter:
  assumes "declaration_at s = Some (matched, rest)"
  shows "length rest < length s"
proof -
  from assms have p: "prefix ''--'' s"
    by (auto simp: declaration_at_def split: if_splits)
  then obtain r where s: "s = ''--'' @ r"
    by (auto simp: prefix_def)
  let ?r1 = "dropWhile (\<lambda>x. x \<noteq> CHR '':'') r"
  have a: "length ?r1 \<le> length r"
    by (rule length_dropWhile_le)
  have b: "length (dropWhile is_space (tl ?r1)) \<le> length ?r1"
    by (metis diff_le_self le_trans length_dropWhile_le length_tl)
  have c: "length (dropWhile (\<lambda>x. x \<noteq> CHR '';'') (dropWhile is_space (tl ?r1)))
    \<le> length (dropWhile is_space (tl ?r1))"
    by (rule length_dropWhile_le)
  from assms s have "rest = dropWhile is_space (tl ?r1)
    \<or> rest = dropWhile (\<lambda>x. x \<noteq> CHR '';'') (dropWhile is_space (tl ?r1))"
    by (auto simp: declaration_at_def Let_def split: if_splits)
  with a b c s show ?thesis
    by auto
qed

termination declarations
  by (relation "measure length") (auto dest: declaration_at_shorter)

text \<open>
  \<open>declaration.split(":").map((part) => part.trim())\<close>, of which the code takes the
  first two parts. A second part that does not exist would be \<open>undefined\<close>.
\<close>

definition declaration_name :: "string \<Rightarrow> string" where
  "declaration_name declaration = trim (takeWhile (\<lambda>x. x \<noteq> CHR '':'') declaration)"

definition declaration_value :: "string \<Rightarrow> string option" where
  "declaration_value declaration =
    (case dropWhile (\<lambda>x. x \<noteq> CHR '':'') declaration of
       [] \<Rightarrow> None
     | c # rest \<Rightarrow> Some (trim (takeWhile (\<lambda>x. x \<noteq> CHR '':'') rest)))"

definition is_digit :: "char \<Rightarrow> bool" where
  "is_digit c = (c \<in> set ''0123456789'')"

definition processColorValue :: "string \<Rightarrow> string" where
  "processColorValue val =
    (case val of
       [] \<Rightarrow> val
     | c # cs \<Rightarrow> if is_digit c then ''hsl('' @ val @ '')'' else val)"

definition variableNames :: "string list" where
  "variableNames = map fst defaultLightThemeStyles_entries"

definition nonColorVariables :: "string list" where
  "nonColorVariables = COMMON_STYLES"

text \<open>
  The body of the \<open>forEach\<close> of \<open>parseColorVariables\<close>, for one declaration. A value
  that is \<open>undefined\<close> is stored as it is and reads as \<open>undefined\<close>.
\<close>

definition parseDeclaration ::
  "('c, 'n) Culori \<Rightarrow> 'n Number_ops \<Rightarrow> string list \<Rightarrow> string \<Rightarrow> ThemeStyleProps \<Rightarrow> ThemeStyleProps" where
  "parseDeclaration cu ops validNames declaration target =
    (let name = declaration_name declaration;
         val = declaration_value declaration;
         cleanName = replace_first ''--'' [] name
     in if cleanName \<in> set validNames then
          (if cleanName \<in> set nonColorVariables then target(cleanName := val)
           else target(cleanName :=
                  map_option (\<lambda>v. colorFormatter cu ops (processColorValue v) HEX V3) val))
        else target)"

definition parseColorVariables ::
  "('c, 'n) Culori \<Rightarrow> 'n Number_ops \<Rightarrow> string \<Rightarrow> ThemeStyleProps \<Rightarrow> string list \<Rightarrow> ThemeStyleProps" where
  "parseColorVariables cu ops cssContent target validNames =
    fold (parseDeclaration cu ops validNames) (declarations cssContent) target"

record ParsedCss =
  lightColors :: ThemeStyleProps
  darkColors :: ThemeStyleProps

text \<open>\<open>parseCssInput\<close>: nothing in the \<open>try\<close> block raises.\<close>

definition parseCssInput :: "('c, 'n) Culori \<Rightarrow> 'n Number_ops \<Rightarrow> string \<Rightarrow> ParsedCss" where
  "parseCssInput cu ops input =
    (let rootContent = extractCssBlockContent input '':root'';
         darkContent = extractCssBlockContent input ''.dark''
     in \<lparr>lightColors =
           (case rootContent of
              None \<Rightarrow> Map.empty
            | Some content \<Rightarrow> parseColorVariables cu ops content Map.empty variableNames),
         darkColors =
           (case darkContent of
              None \<Rightarrow> Map.empty
            | Some content \<Rightarrow> parseColorVariables cu ops content Map.empty variableNames)\<rparr>)"

section \<open>The contrast checker\<close>









section \<open>A reference instance of the runtime and of the colour library\<close>

text \<open>
  The theorems below hold for every colour library and every number runtime. To run the
  model on concrete inputs, this section gives one instance: exact rational numbers in
  place of the doubles (printing and \<open>parseFloat\<close> for decimal literals without an
  exponent), and a colour library that accepts six-digit hex literals only, with
  culori's conversion from RGB to HSL. The conversion to OKLCH needs cube roots and is
  left without components; no evaluation below uses it.
\<close>

definition digit_char :: "nat \<Rightarrow> char" where
  "digit_char d = ''0123456789abcdef'' ! (d mod 16)"

fun show_nat :: "nat \<Rightarrow> string" where
  "show_nat n = (if n < 10 then [digit_char n] else show_nat (n div 10) @ [digit_char (n mod 10)])"

fun frac_digits :: "nat \<Rightarrow> rat \<Rightarrow> string" where
  "frac_digits 0 f = []"
| "frac_digits (Suc k) f =
    (if f = 0 then []
     else digit_char (nat \<lfloor>f * 10\<rfloor>) # frac_digits k (f * 10 - of_int \<lfloor>f * 10\<rfloor>))"

definition ref_toString :: "rat \<Rightarrow> string" where
  "ref_toString q =
    (if q < 0 then ''-'' else []) @ show_nat (nat \<lfloor>\<bar>q\<bar>\<rfloor>)
    @ (if \<bar>q\<bar> - of_int \<lfloor>\<bar>q\<bar>\<rfloor> = 0 then []
       else ''.'' @ frac_digits 17 (\<bar>q\<bar> - of_int \<lfloor>\<bar>q\<bar>\<rfloor>))"

text \<open>\<open>toFixed(2)\<close> rounds the magnitude to hundredths, a half upwards.\<close>

definition fixed2_digits :: "nat \<Rightarrow> string" where
  "fixed2_digits n =
    show_nat (n div 100) @ ''.'' @ [digit_char ((n div 10) mod 10), digit_char (n mod 10)]"

definition ref_toFixed2 :: "rat \<Rightarrow> string" where
  "ref_toFixed2 q =
    (if q < 0 then ''-'' else []) @ fixed2_digits (nat \<lfloor>\<bar>q\<bar> * 100 + 1 / 2\<rfloor>)"

definition digit_value :: "char \<Rightarrow> nat" where
  "digit_value c =
    (if c \<in> set ''0123456789'' then of_char c - 48
     else if c \<in> set ''abcdef'' then of_char c - 87
     else of_char c - 55)"

definition digits_value :: "nat \<Rightarrow> string \<Rightarrow> nat" where
  "digits_value base ds = foldl (\<lambda>n c. n * base + digit_value c) 0 ds"

text \<open>
  \<open>parseFloat\<close>: leading white space, a sign, digits and a fraction; what follows is
  ignored, and without a digit the result is \<open>NaN\<close>.
\<close>

definition unsigned_part :: "string \<Rightarrow> string" where
  "unsigned_part s =
    (case dropWhile is_space s of
       [] \<Rightarrow> []
     | c # cs \<Rightarrow> if c = CHR ''-'' \<or> c = CHR ''+'' then cs else c # cs)"

definition is_negative :: "string \<Rightarrow> bool" where
  "is_negative s = (case dropWhile is_space s of [] \<Rightarrow> False | c # cs \<Rightarrow> c = CHR ''-'')"

definition fraction_part :: "string \<Rightarrow> string" where
  "fraction_part s =
    (case dropWhile is_digit s of
       [] \<Rightarrow> []
     | c # cs \<Rightarrow> if c = CHR ''.'' then takeWhile is_digit cs else [])"

definition ref_parseFloat :: "string \<Rightarrow> rat js_number" where
  "ref_parseFloat s =
    (if takeWhile is_digit (unsigned_part s) = [] \<and> fraction_part (unsigned_part s) = [] then NaN
     else Num ((if is_negative s then - 1 else 1)
               * (of_nat (digits_value 10 (takeWhile is_digit (unsigned_part s)))
                  + of_nat (digits_value 10 (fraction_part (unsigned_part s)))
                    / 10 ^ length (fraction_part (unsigned_part s)))))"

definition ref_ops :: "rat Number_ops" where
  "ref_ops =
    \<lparr>is_zero = (\<lambda>q. q = 0),
     is_integral = (\<lambda>q. q = of_int \<lfloor>q\<rfloor>),
     times = (\<lambda>a b. Num (a * b)),
     minus = (\<lambda>a b. Num (a - b)),
     literal = (\<lambda>s. case ref_parseFloat s of NaN \<Rightarrow> 0 | Num q \<Rightarrow> q),
     toString = ref_toString,
     toFixed2 = ref_toFixed2,
     parseFloat = ref_parseFloat\<rparr>"

definition is_hex_digit :: "char \<Rightarrow> bool" where
  "is_hex_digit c = (c \<in> set ''0123456789abcdefABCDEF'')"

definition ref_parse :: "string \<Rightarrow> (nat \<times> nat \<times> nat) option" where
  "ref_parse s =
    (case s of
       [] \<Rightarrow> None
     | c # ds \<Rightarrow>
         if c = CHR ''#'' \<and> length ds = 6 \<and> list_all is_hex_digit ds
         then Some (digits_value 16 (take 2 ds), digits_value 16 (take 2 (drop 2 ds)),
                    digits_value 16 (drop 4 ds))
         else None)"

definition hex2 :: "nat \<Rightarrow> string" where
  "hex2 n = [digit_char (min n 255 div 16), digit_char (min n 255 mod 16)]"

definition ref_formatHex :: "nat \<times> nat \<times> nat \<Rightarrow> string" where
  "ref_formatHex color = (case color of (r, g, b) \<Rightarrow> ''#'' @ hex2 r @ hex2 g @ hex2 b)"

definition ref_formatRgb :: "nat \<times> nat \<times> nat \<Rightarrow> string" where
  "ref_formatRgb color =
    (case color of (r, g, b) \<Rightarrow>
       ''rgb('' @ show_nat (min r 255) @ '', '' @ show_nat (min g 255) @ '', ''
       @ show_nat (min b 255) @ '')'')"

text \<open>culori's \<open>convertRgbToHsl\<close>; the hue is left out when the colour is grey.\<close>

definition channel :: "nat \<Rightarrow> rat" where
  "channel n = of_nat (min n 255) / 255"

definition hsl_of_rgb :: "rat \<Rightarrow> rat \<Rightarrow> rat \<Rightarrow> rat \<Rightarrow> rat \<Rightarrow> rat hsl_color" where
  "hsl_of_rgb r g b M m =
    \<lparr>hsl_h =
       (if M - m \<noteq> 0
        then Some (Num ((if M = r then (g - b) / (M - m) + (if g < b then 6 else 0)
                         else if M = g then (b - r) / (M - m) + 2
                         else (r - g) / (M - m) + 4) * 60))
        else None),
     hsl_s = Some (Num (if M = m then 0 else (M - m) / (1 - \<bar>M + m - 1\<bar>))),
     hsl_l = Some (Num (1 / 2 * (M + m)))\<rparr>"

definition ref_converter_hsl :: "nat \<times> nat \<times> nat \<Rightarrow> rat hsl_color" where
  "ref_converter_hsl color =
    (case color of (r, g, b) \<Rightarrow>
       hsl_of_rgb (channel r) (channel g) (channel b)
         (max (channel r) (max (channel g) (channel b)))
         (min (channel r) (min (channel g) (channel b))))"

definition ref_culori :: "(nat \<times> nat \<times> nat, rat) Culori" where
  "ref_culori =
    \<lparr>parse = ref_parse,
     converter_hsl = ref_converter_hsl,
     converter_oklch = (\<lambda>color. \<lparr>oklch_l = None, oklch_c = None, oklch_h = None\<rparr>),
     formatRgb = ref_formatRgb,
     formatHex = ref_formatHex\<rparr>"


text \<open>Evaluation of the reference instance by rewriting.\<close>

declare show_nat.simps [simp del]

lemma show_nat_numeral:
  "show_nat (numeral k) =
    (if (numeral k :: nat) < 10 then [digit_char (numeral k)]
     else show_nat (numeral k div 10) @ [digit_char (numeral k mod 10)])"
  by (rule show_nat.simps)

lemma show_nat_small:
  "show_nat 0 = ''0''" "show_nat 1 = ''1''" "show_nat (Suc 0) = ''1''"
  by (simp_all add: show_nat.simps [of 0] show_nat.simps [of 1] show_nat.simps [of "Suc 0"]
      digit_char_def)

lemma frac_digits_numeral:
  "frac_digits (numeral k) f =
    (if f = 0 then []
     else digit_char (nat \<lfloor>f * 10\<rfloor>) # frac_digits (pred_numeral k) (f * 10 - of_int \<lfloor>f * 10\<rfloor>))"
  by (simp add: numeral_eq_Suc)

lemma floor_rat_numeral_divide:
  "\<lfloor>(numeral a / numeral b :: rat)\<rfloor> = numeral a div numeral b"
  "\<lfloor>(1 / numeral b :: rat)\<rfloor> = 1 div numeral b"
  using floor_divide_of_int_eq [of "numeral a" "numeral b", where ?'a = rat]
    floor_divide_of_int_eq [of 1 "numeral b", where ?'a = rat]
  by simp_all

lemmas ref_eval =
  ref_culori_def ref_ops_def ref_parse_def ref_formatHex_def ref_formatRgb_def
  ref_converter_hsl_def hsl_of_rgb_def channel_def ref_parseFloat_def unsigned_part_def
  is_negative_def fraction_part_def ref_toString_def ref_toFixed2_def fixed2_digits_def hex2_def
  digits_value_def digit_value_def digit_char_def is_hex_digit_def is_digit_def is_space_def
  show_nat_numeral show_nat_small frac_digits_numeral floor_rat_numeral_divide






section \<open>The shape of the generated stylesheet\<close>

text \<open>
  A block of the generated stylesheet is a sequence of declaration lines
  \<open>--name: value;\<close>, each after a separator (a line break and two spaces). The lists
  below name the lines of one block in the order of \<open>generateThemeVariables\<close>: the
  colour lines, and the lines whose values are written as they are.
\<close>

definition color_keys :: "string list" where
  "color_keys =
    [''background'', ''foreground'', ''card'', ''card-foreground'', ''popover'',
     ''popover-foreground'', ''primary'', ''primary-foreground'', ''secondary'',
     ''secondary-foreground'', ''muted'', ''muted-foreground'', ''accent'',
     ''accent-foreground'', ''destructive'', ''destructive-foreground'', ''border'', ''input'',
     ''ring'', ''chart-1'', ''chart-2'', ''chart-3'', ''chart-4'', ''chart-5'', ''sidebar'',
     ''sidebar-foreground'', ''sidebar-primary'', ''sidebar-primary-foreground'',
     ''sidebar-accent'', ''sidebar-accent-foreground'', ''sidebar-border'', ''sidebar-ring'']"

definition color_lines :: "ThemeStyleProps \<Rightarrow> (string option \<Rightarrow> string) \<Rightarrow> (string \<times> string) list" where
  "color_lines tokens formatColor = map (\<lambda>key. (key, formatColor (tokens key))) color_keys"

definition other_lines ::
  "('c, 'n) Culori \<Rightarrow> 'n Number_ops \<Rightarrow> ThemeStyles \<Rightarrow> ThemeMode \<Rightarrow> ThemeStyleProps
    \<Rightarrow> (string \<times> string) list" where
  "other_lines cu ops themeStyles mode tokens =
    [(''font-sans'', js_str (tokens ''font-sans'')),
     (''font-serif'', js_str (tokens ''font-serif'')),
     (''font-mono'', js_str (tokens ''font-mono'')),
     (''radius'', js_str (tokens ''radius''))]
    @ map (\<lambda>name. (name, js_str (map_of
              (getShadowMap cu ops \<lparr>styles = themeStyles, currentMode = mode, preset = None\<rparr>) name)))
        [''shadow-2xs'', ''shadow-xs'', ''shadow-sm'', ''shadow'', ''shadow-md'', ''shadow-lg'',
         ''shadow-xl'', ''shadow-2xl'']
    @ (if mode = Light \<and> tokens ''letter-spacing'' \<noteq> defaultLightThemeStyles ''letter-spacing''
       then [(''tracking-normal'', js_str (tokens ''letter-spacing''))] else [])
    @ (if mode = Light \<and> tokens ''spacing'' \<noteq> defaultLightThemeStyles ''spacing''
       then [(''spacing'', js_str (tokens ''spacing''))] else [])"

fun lines_text :: "(string \<times> string \<times> string) list \<Rightarrow> string" where
  "lines_text [] = []"
| "lines_text ((sep, name, val) # ls) = sep @ ''--'' @ name @ '': '' @ val @ '';'' @ lines_text ls"

definition indented :: "(string \<times> string) list \<Rightarrow> (string \<times> string \<times> string) list" where
  "indented ls = map (\<lambda>(name, val). (''\<newline>  '', name, val)) ls"

text \<open>What the round trip asks of the values that are written into a block.\<close>

definition hex_literal :: "string \<Rightarrow> bool" where
  "hex_literal s =
    (case s of [] \<Rightarrow> False | c # ds \<Rightarrow> c = CHR ''#'' \<and> ds \<noteq> [] \<and> list_all is_hex_digit ds)"

definition hex_stable :: "('c, 'n) Culori \<Rightarrow> 'n Number_ops \<Rightarrow> string \<Rightarrow> bool" where
  "hex_stable cu ops s = (hex_literal s \<and> colorFormatter cu ops s HEX V3 = s)"

definition css_safe :: "string \<Rightarrow> bool" where
  "css_safe s = (CHR '';'' \<notin> set s \<and> CHR ''{'' \<notin> set s \<and> CHR ''}'' \<notin> set s)"

definition good_name :: "string \<Rightarrow> bool" where
  "good_name name = (name \<noteq> [] \<and> CHR '':'' \<notin> set name \<and> \<not> is_space (last name))"

definition good_line :: "string \<times> string \<times> string \<Rightarrow> bool" where
  "good_line l = (case l of (sep, name, val) \<Rightarrow>
     list_all is_space sep \<and> good_name name \<and> CHR '';'' \<notin> set val)"

definition line_declaration :: "string \<times> string \<times> string \<Rightarrow> string" where
  "line_declaration l = (case l of (sep, name, val) \<Rightarrow> ''--'' @ name @ '': '' @ val)"

section \<open>Properties of the preset catalog and the editor store\<close>

subsection \<open>Key sets of the default theme and of the presets\<close>

lemma dom_defaultLightThemeStyles:
  "dom defaultLightThemeStyles = set (map fst defaultLightThemeStyles_entries)"
  by (simp add: defaultLightThemeStyles_def dom_map_of_conv_image_fst)

lemma dark_keys_subset_light_keys:
  "set (map fst defaultDarkThemeStyles_entries) \<subseteq> set (map fst defaultLightThemeStyles_entries)"
  by (simp add: defaultDarkThemeStyles_entries_def defaultLightThemeStyles_entries_def)

lemma dom_defaultDarkThemeStyles:
  "dom defaultDarkThemeStyles = dom defaultLightThemeStyles"
  using dark_keys_subset_light_keys
  by (auto simp: defaultDarkThemeStyles_def dom_defaultLightThemeStyles dom_map_of_conv_image_fst)

definition known_keys :: "(string \<times> string) list \<Rightarrow> bool" where
  "known_keys entries = list_all (\<lambda>k. k \<in> set (map fst defaultLightThemeStyles_entries)) (map fst entries)"

lemma known_keys_dom:
  assumes "known_keys entries"
  shows "dom (map_of entries) \<subseteq> dom defaultLightThemeStyles"
  using assms
  by (auto simp: known_keys_def list_all_iff dom_defaultLightThemeStyles dom_map_of_conv_image_fst)

lemma known_keys_modern_minimal:
  "known_keys preset_modern_minimal_light" "known_keys preset_modern_minimal_dark"
  by (simp_all add: known_keys_def preset_modern_minimal_light_def preset_modern_minimal_dark_def
      defaultLightThemeStyles_entries_def)

lemma known_keys_t3_chat:
  "known_keys preset_t3_chat_light" "known_keys preset_t3_chat_dark"
  by (simp_all add: known_keys_def preset_t3_chat_light_def preset_t3_chat_dark_def
      defaultLightThemeStyles_entries_def)

lemma known_keys_bubblegum:
  "known_keys preset_bubblegum_light" "known_keys preset_bubblegum_dark"
  by (simp_all add: known_keys_def preset_bubblegum_light_def preset_bubblegum_dark_def
      defaultLightThemeStyles_entries_def)

lemma known_keys_catppuccin:
  "known_keys preset_catppuccin_light" "known_keys preset_catppuccin_dark"
  by (simp_all add: known_keys_def preset_catppuccin_light_def preset_catppuccin_dark_def
      defaultLightThemeStyles_entries_def)

lemma known_keys_graphite:
  "known_keys preset_graphite_light" "known_keys preset_graphite_dark"
  by (simp_all add: known_keys_def preset_graphite_light_def preset_graphite_dark_def
      defaultLightThemeStyles_entries_def)

lemma known_keys_perpetuity:
  "known_keys preset_perpetuity_light" "known_keys preset_perpetuity_dark"
  by (simp_all add: known_keys_def preset_perpetuity_light_def preset_perpetuity_dark_def
      defaultLightThemeStyles_entries_def)

lemma known_keys_kodama_grove:
  "known_keys preset_kodama_grove_light" "known_keys preset_kodama_grove_dark"
  by (simp_all add: known_keys_def preset_kodama_grove_light_def preset_kodama_grove_dark_def
      defaultLightThemeStyles_entries_def)

text \<open>Every preset of the catalog overrides tokens of the default set only.\<close>

definition overrides_known_keys :: "ThemePreset \<Rightarrow> bool" where
  "overrides_known_keys p =
    (dom (object_spread (light (preset_styles p))) \<subseteq> dom defaultLightThemeStyles
     \<and> dom (object_spread (dark (preset_styles p))) \<subseteq> dom defaultLightThemeStyles)"

lemma overrides_known_keys_catalog:
  "overrides_known_keys preset_modern_minimal"
  "overrides_known_keys preset_t3_chat"
  "overrides_known_keys preset_bubblegum"
  "overrides_known_keys preset_catppuccin"
  "overrides_known_keys preset_graphite"
  "overrides_known_keys preset_perpetuity"
  "overrides_known_keys preset_kodama_grove"
  by (simp_all add: overrides_known_keys_def known_keys_dom
      preset_modern_minimal_def known_keys_modern_minimal
      preset_t3_chat_def known_keys_t3_chat
      preset_bubblegum_def known_keys_bubblegum
      preset_catppuccin_def known_keys_catppuccin
      preset_graphite_def known_keys_graphite
      preset_perpetuity_def known_keys_perpetuity
      preset_kodama_grove_def known_keys_kodama_grove)

lemma catalog_keys:
  assumes "map_of presets name = Some p"
  shows "dom (object_spread (light (preset_styles p))) \<subseteq> dom defaultLightThemeStyles"
    and "dom (object_spread (dark (preset_styles p))) \<subseteq> dom defaultLightThemeStyles"
proof -
  from assms have "p \<in> {preset_modern_minimal, preset_t3_chat, preset_bubblegum,
      preset_catppuccin, preset_graphite, preset_perpetuity, preset_kodama_grove}"
    by (auto simp: presets_def split: if_splits)
  then have "overrides_known_keys p"
    using overrides_known_keys_catalog by blast
  then show "dom (object_spread (light (preset_styles p))) \<subseteq> dom defaultLightThemeStyles"
    and "dom (object_spread (dark (preset_styles p))) \<subseteq> dom defaultLightThemeStyles"
    by (simp_all add: overrides_known_keys_def)
qed

lemma default_not_in_catalog: "map_of presets ''default'' = None"
  by (simp add: presets_def)

lemma catalog_not_inherited:
  assumes "name \<in> set Object_prototype_keys"
  shows "map_of presets name = None"
  using assms by (auto simp: Object_prototype_keys_def presets_def)

subsection \<open>Resolving a preset name\<close>

lemma getPresetThemeStyles_default:
  "getPresetThemeStyles ''default'' = Inr defaultThemeStyles"
  by (simp add: getPresetThemeStyles_def)

lemma getPresetThemeStyles_unknown:
  assumes "map_of presets name = None" and "name \<notin> set Object_prototype_keys"
  shows "getPresetThemeStyles name = Inr defaultThemeStyles"
  using assms by (simp add: getPresetThemeStyles_def presets_get_def)

lemma getPresetThemeStyles_catalog:
  assumes "map_of presets name = Some p"
  shows "getPresetThemeStyles name =
    Inr \<lparr>light = Some (defaultLightThemeStyles ++ object_spread (light (preset_styles p))),
         dark = Some (defaultDarkThemeStyles ++ object_spread (dark (preset_styles p)))\<rparr>"
proof -
  have "name \<noteq> ''default''"
    using assms default_not_in_catalog by auto
  then show ?thesis
    using assms by (simp add: getPresetThemeStyles_def presets_get_def defaultThemeStyles_def)
qed

lemma getPresetThemeStyles_inherited:
  assumes "name \<in> set Object_prototype_keys"
  shows "getPresetThemeStyles name = Inl TypeError"
proof -
  have "name \<noteq> ''default''"
    using assms by (auto simp: Object_prototype_keys_def)
  then show ?thesis
    using assms catalog_not_inherited [OF assms]
    by (simp add: getPresetThemeStyles_def presets_get_def)
qed

text \<open>
  Away from the names that \<open>Object.prototype\<close> defines, the resolved styles have both
  modes, each with exactly the keys of the default set.
\<close>

lemma getPresetThemeStyles_key_sets:
  assumes "name \<notin> set Object_prototype_keys"
  shows "\<exists>l d. getPresetThemeStyles name = Inr \<lparr>light = Some l, dark = Some d\<rparr>
    \<and> dom l = dom defaultLightThemeStyles \<and> dom d = dom defaultDarkThemeStyles"
proof (cases "map_of presets name")
  case None
  then show ?thesis
    using assms by (simp add: getPresetThemeStyles_unknown defaultThemeStyles_def)
next
  case (Some p)
  show ?thesis
    using catalog_keys [OF Some]
    by (auto simp: getPresetThemeStyles_catalog [OF Some] dom_defaultDarkThemeStyles)
qed

text \<open>
  C5. \<open>getPresetThemeStyles\<close> is documented to return the default theme for every name
  that is not in the catalog. The name \<open>constructor\<close> is not in the catalog, but
  \<open>presets["constructor"]\<close> is the inherited constructor function, so the function goes
  on to read \<open>preset.styles.light\<close> and raises a \<open>TypeError\<close> instead of returning
  styles.
\<close>

theorem getPresetThemeStyles_constructor_raises:
  "map_of presets ''constructor'' = None
   \<and> getPresetThemeStyles ''constructor'' = Inl TypeError"
  by (simp add: getPresetThemeStyles_def presets_get_def presets_def Object_prototype_keys_def)

subsection \<open>Applying a preset and resetting\<close>

lemma applyThemePreset_unknown:
  assumes "name \<noteq> ''default''" and "map_of presets name = None"
    and "name \<notin> set Object_prototype_keys"
  shows "applyThemePreset name store =
    Inr \<lparr>themeState = (themeState store)\<lparr>preset := Some name, styles := defaultThemeStyles\<rparr>,
         hasChangedThemeFromDefault = True\<rparr>"
  using assms by (simp add: applyThemePreset_def getPresetThemeStyles_unknown)

lemma applyThemePreset_unknown_latch:
  assumes "name \<noteq> ''default''" and "map_of presets name = None"
    and "name \<notin> set Object_prototype_keys"
  shows "\<exists>store'. applyThemePreset name store = Inr store'
    \<and> hasChangedThemeFromDefault store' \<and> \<not> hasDefaultThemeChanged store'
    \<and> preset (themeState store') = Some name"
  using assms by (simp add: applyThemePreset_unknown hasDefaultThemeChanged_def)

text \<open>
  C10. For a name that is neither \<open>default\<close> nor in the catalog, \<open>applyThemePreset\<close>
  is to store the default styles under that name and set the latch. For the name
  \<open>constructor\<close> the call raises the \<open>TypeError\<close> of \<open>getPresetThemeStyles\<close> before
  the store is written: no state is set at all.
\<close>

theorem applyThemePreset_constructor_raises:
  "''constructor'' \<noteq> ''default'' \<and> map_of presets ''constructor'' = None
   \<and> applyThemePreset ''constructor'' (initialStore False) = Inl TypeError"
  by (simp add: applyThemePreset_def getPresetThemeStyles_inherited Object_prototype_keys_def
      presets_def)

text \<open>
  C2 as stated fails: \<open>resetToDefault\<close> builds the new theme state from
  \<open>defaultThemeState\<close>, which has no \<open>preset\<close>, so the preset name of the old state is
  gone after the call.
\<close>

theorem resetToDefault_preset_counterexample:
  "preset (themeState (resetToDefault False
      \<lparr>themeState = \<lparr>styles = defaultThemeStyles, currentMode = Dark, preset = Some ''bubblegum''\<rparr>,
       hasChangedThemeFromDefault = True\<rparr>))
   \<noteq> Some ''bubblegum''"
  by (simp add: resetToDefault_def defaultThemeState_def)

text \<open>
  C2, amended: \<open>resetToDefault\<close> replaces the styles by the default styles, keeps the
  current mode, leaves the latch as it is, and leaves the state without a preset name.
\<close>

theorem resetToDefault_clears_preset:
  "styles (themeState (resetToDefault prefersDark store)) = defaultThemeStyles
   \<and> currentMode (themeState (resetToDefault prefersDark store)) = currentMode (themeState store)
   \<and> preset (themeState (resetToDefault prefersDark store)) = None
   \<and> hasChangedThemeFromDefault (resetToDefault prefersDark store) = hasChangedThemeFromDefault store"
  by (simp add: resetToDefault_def defaultThemeState_def)

subsection \<open>Editing one token\<close>

fun other_mode :: "ThemeMode \<Rightarrow> ThemeMode" where
  "other_mode Light = Dark"
| "other_mode Dark = Light"

definition token :: "ThemeStyles \<Rightarrow> ThemeMode \<Rightarrow> string \<Rightarrow> string option" where
  "token st mode key = object_spread (mode_styles st mode) key"

text \<open>
  C3. An edit of a common key writes the value into both modes, whichever mode is
  current; an edit of any other key writes it into the set of the current mode and
  leaves the set of the other mode as it was.
\<close>

theorem updateStyle_common_and_mode:
  "(key \<in> set COMMON_STYLES \<longrightarrow>
      light (updateStyle st mode key val) \<noteq> None \<and> dark (updateStyle st mode key val) \<noteq> None
      \<and> token (updateStyle st mode key val) Light key = Some val
      \<and> token (updateStyle st mode key val) Dark key = Some val)
   \<and> (key \<notin> set COMMON_STYLES \<longrightarrow>
      mode_styles (updateStyle st mode key val) mode \<noteq> None
      \<and> token (updateStyle st mode key val) mode key = Some val
      \<and> mode_styles (updateStyle st mode key val) (other_mode mode) = mode_styles st (other_mode mode))"
  by (cases mode) (simp_all add: updateStyle_def token_def)

theorem updateStyle_common_and_mode_witness:
  "''radius'' \<in> set COMMON_STYLES
   \<and> token (updateStyle defaultThemeStyles Dark ''radius'' ''1rem'') Light ''radius'' = Some ''1rem''
   \<and> token (updateStyle defaultThemeStyles Dark ''radius'' ''1rem'') Dark ''radius'' = Some ''1rem''
   \<and> ''primary'' \<notin> set COMMON_STYLES
   \<and> token (updateStyle defaultThemeStyles Dark ''primary'' ''#ff0000'') Dark ''primary'' = Some ''#ff0000''
   \<and> mode_styles (updateStyle defaultThemeStyles Dark ''primary'' ''#ff0000'') Light
       = mode_styles defaultThemeStyles Light"
proof -
  have c: "''radius'' \<in> set COMMON_STYLES" and n: "''primary'' \<notin> set COMMON_STYLES"
    by (simp_all add: COMMON_STYLES_def)
  show ?thesis
    using c n
      updateStyle_common_and_mode [of "''radius''" defaultThemeStyles Dark "''1rem''"]
      updateStyle_common_and_mode [of "''primary''" defaultThemeStyles Dark "''#ff0000''"]
    by simp
qed

lemma editToken_styles:
  assumes "isThemeStyles (styles (themeState store))"
  shows "styles (themeState (editToken key val store))
    = updateStyle (styles (themeState store)) (currentMode (themeState store)) key val"
    and "currentMode (themeState (editToken key val store)) = currentMode (themeState store)"
    and "preset (themeState (editToken key val store)) = preset (themeState store)"
  using assms by (simp_all add: editToken_def handleStyleChange_def setThemeState_def Let_def)


section \<open>Properties of the colour converter\<close>

text \<open>
  C8. A string that \<open>culori.parse\<close> does not accept makes the \<open>try\<close> block raise; the
  \<open>catch\<close> block turns that into the input string, for every format and version.
  \<open>colorFormatter\<close> itself returns a string in every case.
\<close>

theorem colorFormatter_unparseable:
  assumes "parse cu colorValue = None"
  shows "colorFormatter_try cu ops colorValue format tailwindVersion = Inl InvalidColorInput
    \<and> colorFormatter cu ops colorValue format tailwindVersion = colorValue"
  using assms by (simp add: colorFormatter_def colorFormatter_try_def)

theorem colorFormatter_unparseable_witness:
  "parse ref_culori ''not a colour'' = None
   \<and> colorFormatter ref_culori ref_ops ''not a colour'' OKLCH V4 = ''not a colour''"
proof -
  have p: "parse ref_culori ''not a colour'' = None"
    by (simp add: ref_culori_def ref_parse_def)
  from colorFormatter_unparseable [OF p, of ref_ops OKLCH V4] p show ?thesis
    by simp
qed

text \<open>
  The formatting rule of the specification for one numeric component: \<open>0\<close> when the
  component is missing (a missing saturation or lightness has become \<open>NaN\<close> by the
  multiplication), the integer when it is integral, two decimals otherwise.
\<close>

definition numeric_component :: "'n Number_ops \<Rightarrow> 'n js_number option \<Rightarrow> string" where
  "numeric_component ops x =
    (case x of
       None \<Rightarrow> ''0''
     | Some NaN \<Rightarrow> ''0''
     | Some (Num a) \<Rightarrow> if is_integral ops a then toString ops a else toFixed2 ops a)"

lemma formatNumber_numeric_component:
  assumes "\<And>a. is_zero ops a \<Longrightarrow> is_integral ops a \<and> toString ops a = ''0''"
  shows "formatNumber ops x = numeric_component ops x"
proof (cases x)
  case None
  then show ?thesis by (simp add: numeric_component_def)
next
  case (Some y)
  then show ?thesis
    using assms by (cases y) (auto simp: numeric_component_def)
qed

lemma numeric_component_no_h:
  assumes "\<And>a. \<not> prefix ''h'' (toString ops a) \<and> \<not> prefix ''h'' (toFixed2 ops a)"
    and "\<not> prefix ''h'' rest"
  shows "\<not> prefix ''h'' (numeric_component ops x @ rest)"
proof -
  have "numeric_component ops x = ''0'' \<or> (\<exists>a. numeric_component ops x = toString ops a)
      \<or> (\<exists>a. numeric_component ops x = toFixed2 ops a)"
    by (auto simp: numeric_component_def split: option.splits js_number.splits)
  moreover have "\<not> prefix ''h'' (''0'' @ rest)"
    by simp
  moreover have "\<not> prefix ''h'' (toString ops a @ rest)" for a
  proof (cases "toString ops a")
    case Nil
    with assms(2) show ?thesis by simp
  next
    case (Cons d ds)
    with assms(1) [of a] show ?thesis by simp
  qed
  moreover have "\<not> prefix ''h'' (toFixed2 ops a @ rest)" for a
  proof (cases "toFixed2 ops a")
    case Nil
    with assms(2) show ?thesis by simp
  next
    case (Cons d ds)
    with assms(1) [of a] show ?thesis by simp
  qed
  ultimately show ?thesis
    by metis
qed

text \<open>
  C1. For a literal that parses, version 4 wraps in \<open>hsl(...)\<close> what version 3 returns
  bare; the bare triplet is \<open>H S% L%\<close>, each component formatted by the rule above, and
  does not begin with \<open>hsl(\<close>. What the theorem takes from the runtime: zero is
  integral and prints as \<open>0\<close>, and no number prints with a leading \<open>h\<close>.
\<close>

theorem colorFormatter_hsl_dialects:
  assumes "parse cu colorValue = Some color"
    and "\<And>a. is_zero ops a \<Longrightarrow> is_integral ops a \<and> toString ops a = ''0''"
    and "\<And>a. \<not> prefix ''h'' (toString ops a) \<and> \<not> prefix ''h'' (toFixed2 ops a)"
  shows "colorFormatter cu ops colorValue HSL V4
      = ''hsl('' @ colorFormatter cu ops colorValue HSL V3 @ '')''
    \<and> colorFormatter cu ops colorValue HSL V3
      = numeric_component ops (hsl_h (converter_hsl cu color)) @ '' ''
        @ numeric_component ops
            (Some (js_times ops (hsl_s (converter_hsl cu color)) (Num (literal ops ''100'')))) @ ''% ''
        @ numeric_component ops
            (Some (js_times ops (hsl_l (converter_hsl cu color)) (Num (literal ops ''100'')))) @ ''%''
    \<and> \<not> prefix ''hsl('' (colorFormatter cu ops colorValue HSL V3)"
proof -
  have v3: "colorFormatter cu ops colorValue HSL V3
      = numeric_component ops (hsl_h (converter_hsl cu color)) @ '' ''
        @ numeric_component ops
            (Some (js_times ops (hsl_s (converter_hsl cu color)) (Num (literal ops ''100'')))) @ ''% ''
        @ numeric_component ops
            (Some (js_times ops (hsl_l (converter_hsl cu color)) (Num (literal ops ''100'')))) @ ''%''"
    using assms(1)
    by (simp add: colorFormatter_def colorFormatter_try_def Let_def
        formatNumber_numeric_component [OF assms(2)])
  have v4: "colorFormatter cu ops colorValue HSL V4
      = ''hsl('' @ colorFormatter cu ops colorValue HSL V3 @ '')''"
    using assms(1) by (simp add: colorFormatter_def colorFormatter_try_def Let_def)
  have "\<not> prefix ''h'' (colorFormatter cu ops colorValue HSL V3)"
    unfolding v3 by (rule numeric_component_no_h [OF assms(3)]) simp
  then have "\<not> prefix ''hsl('' (colorFormatter cu ops colorValue HSL V3)"
    by (auto simp: prefix_def)
  with v3 v4 show ?thesis
    by simp
qed

text \<open>The reference runtime meets what C1 takes from the runtime.\<close>

lemma show_nat_digits:
  "show_nat n \<noteq> [] \<and> hd (show_nat n) \<in> set ''0123456789''"
proof (induction n rule: show_nat.induct)
  case (1 n)
  show ?case
  proof (cases "n < 10")
    case True
    then have "n \<in> {0, 1, 2, 3, 4, 5, 6, 7, 8, 9}"
      by auto
    then show ?thesis
      by (auto simp: show_nat.simps [of n] digit_char_def)
  next
    case False
    with 1 show ?thesis
      by (simp add: show_nat.simps [of n])
  qed
qed

lemma ref_ops_no_h:
  "\<not> prefix ''h'' (toString ref_ops a) \<and> \<not> prefix ''h'' (toFixed2 ref_ops a)"
proof -
  have "\<not> prefix ''h'' (show_nat n @ rest)" for n rest
    using show_nat_digits [of n] by (cases "show_nat n") auto
  then show ?thesis
    by (simp add: ref_ops_def ref_toString_def ref_toFixed2_def fixed2_digits_def)
qed

lemma ref_ops_zero:
  assumes "is_zero ref_ops a"
  shows "is_integral ref_ops a \<and> toString ref_ops a = ''0''"
  using assms by (simp add: ref_ops_def ref_toString_def show_nat_small)

theorem colorFormatter_hsl_dialects_witness:
  "parse ref_culori ''#ff0000'' = Some (255, 0, 0)
   \<and> colorFormatter ref_culori ref_ops ''#ff0000'' HSL V3 = ''0 100% 50%''
   \<and> colorFormatter ref_culori ref_ops ''#ff0000'' HSL V4 = ''hsl(0 100% 50%)''
   \<and> \<not> prefix ''hsl('' (colorFormatter ref_culori ref_ops ''#ff0000'' HSL V3)"
proof -
  have p: "parse ref_culori ''#ff0000'' = Some (255, 0, 0)"
    by (simp add: ref_eval)
  have v3: "colorFormatter ref_culori ref_ops ''#ff0000'' HSL V3 = ''0 100% 50%''"
    by (simp add: colorFormatter_def colorFormatter_try_def ref_eval)
  from colorFormatter_hsl_dialects [OF p ref_ops_zero ref_ops_no_h] p v3 show ?thesis
    by simp
qed

section \<open>Properties of the shadow map\<close>

text \<open>
  The token set that \<open>getShadowMap\<close> reads: the default set of the mode, overridden by
  the state's set of that mode. It defines every token of the default set.
\<close>

definition effective_styles :: "ThemeEditorState \<Rightarrow> ThemeStyleProps" where
  "effective_styles st =
    object_spread (mode_styles defaultThemeStyles (currentMode st))
    ++ object_spread (mode_styles (styles st) (currentMode st))"

lemma effective_styles_defined:
  assumes "key \<in> set (map fst defaultLightThemeStyles_entries)"
  shows "\<exists>v. effective_styles st key = Some v"
proof -
  have "key \<in> dom (object_spread (mode_styles defaultThemeStyles (currentMode st)))"
    using assms dom_defaultDarkThemeStyles dom_defaultLightThemeStyles
    by (cases "currentMode st") (simp_all add: defaultThemeStyles_def)
  then show ?thesis
    by (auto simp: effective_styles_def map_add_def split: option.splits)
qed

text \<open>
  The compositing rule in the words of the specification. The six shadow tokens that the
  rule reads are kept together.
\<close>

record ShadowTokens =
  shadowColor :: string
  shadowOpacity :: string
  shadowBlur :: string
  shadowSpread :: string
  shadowOffsetX :: string
  shadowOffsetY :: string

definition shadow_term :: "string \<Rightarrow> string \<Rightarrow> string \<Rightarrow> string \<Rightarrow> string \<Rightarrow> string" where
  "shadow_term offsetX offsetY blur spread' colour =
    offsetX @ '' '' @ offsetY @ '' '' @ blur @ '' '' @ spread' @ '' '' @ colour"

definition shadow_hsl :: "('c, 'n) Culori \<Rightarrow> 'n Number_ops \<Rightarrow> ShadowTokens \<Rightarrow> string \<Rightarrow> string" where
  "shadow_hsl cu ops t factor =
    ''hsl('' @ colorFormatter cu ops (shadowColor t) HSL V3 @ '' / ''
    @ js_toFixed2 ops
        (js_times ops (Some (parseFloat ops (shadowOpacity t))) (Num (literal ops factor)))
    @ '')''"

definition spread_minus_one :: "'n Number_ops \<Rightarrow> ShadowTokens \<Rightarrow> string" where
  "spread_minus_one ops t =
    js_toString ops
      (js_minus ops (parseFloat ops (replace_first ''px'' [] (shadowSpread t)))
         (Num (literal ops ''1'')))
    @ ''px''"

definition single_layer :: "('c, 'n) Culori \<Rightarrow> 'n Number_ops \<Rightarrow> ShadowTokens \<Rightarrow> string \<Rightarrow> string" where
  "single_layer cu ops t factor =
    shadow_term (shadowOffsetX t) (shadowOffsetY t) (shadowBlur t) (shadowSpread t)
      (shadow_hsl cu ops t factor)"

definition double_layer ::
  "('c, 'n) Culori \<Rightarrow> 'n Number_ops \<Rightarrow> ShadowTokens \<Rightarrow> string \<Rightarrow> string \<Rightarrow> string" where
  "double_layer cu ops t fixedOffsetY fixedBlur =
    single_layer cu ops t ''1.0'' @ '', ''
    @ shadow_term (shadowOffsetX t) fixedOffsetY fixedBlur (spread_minus_one ops t)
        (shadow_hsl cu ops t ''1.0'')"

definition shadow_table :: "('c, 'n) Culori \<Rightarrow> 'n Number_ops \<Rightarrow> ShadowTokens \<Rightarrow> (string \<times> string) list" where
  "shadow_table cu ops t =
    [(''shadow-2xs'', single_layer cu ops t ''0.5''),
     (''shadow-xs'', single_layer cu ops t ''0.5''),
     (''shadow-2xl'', single_layer cu ops t ''2.5''),
     (''shadow-sm'', double_layer cu ops t ''1px'' ''2px''),
     (''shadow'', double_layer cu ops t ''1px'' ''2px''),
     (''shadow-md'', double_layer cu ops t ''2px'' ''4px''),
     (''shadow-lg'', double_layer cu ops t ''4px'' ''6px''),
     (''shadow-xl'', double_layer cu ops t ''8px'' ''10px'')]"

lemma getShadowMap_entries:
  assumes "effective_styles st ''shadow-color'' = Some (shadowColor t)"
    and "effective_styles st ''shadow-opacity'' = Some (shadowOpacity t)"
    and "effective_styles st ''shadow-blur'' = Some (shadowBlur t)"
    and "effective_styles st ''shadow-spread'' = Some (shadowSpread t)"
    and "effective_styles st ''shadow-offset-x'' = Some (shadowOffsetX t)"
    and "effective_styles st ''shadow-offset-y'' = Some (shadowOffsetY t)"
  shows "getShadowMap cu ops st = shadow_table cu ops t"
  using assms
  by (simp add: getShadowMap_def effective_styles_def firstLayer_def secondLayer_def
      shadow_color_def shadow_table_def single_layer_def double_layer_def shadow_term_def
      shadow_hsl_def spread_minus_one_def Let_def)

text \<open>
  C4. The shadow map has the eight entries of the table: three single terms with the
  factors 0.5, 0.5 and 2.5, and five double terms with the fixed pairs of the second
  term.
\<close>

theorem getShadowMap_table:
  assumes "effective_styles st ''shadow-color'' = Some (shadowColor t)"
    and "effective_styles st ''shadow-opacity'' = Some (shadowOpacity t)"
    and "effective_styles st ''shadow-blur'' = Some (shadowBlur t)"
    and "effective_styles st ''shadow-spread'' = Some (shadowSpread t)"
    and "effective_styles st ''shadow-offset-x'' = Some (shadowOffsetX t)"
    and "effective_styles st ''shadow-offset-y'' = Some (shadowOffsetY t)"
  shows "getShadowMap cu ops st =
    [(''shadow-2xs'', single_layer cu ops t ''0.5''),
     (''shadow-xs'', single_layer cu ops t ''0.5''),
     (''shadow-2xl'', single_layer cu ops t ''2.5''),
     (''shadow-sm'', double_layer cu ops t ''1px'' ''2px''),
     (''shadow'', double_layer cu ops t ''1px'' ''2px''),
     (''shadow-md'', double_layer cu ops t ''2px'' ''4px''),
     (''shadow-lg'', double_layer cu ops t ''4px'' ''6px''),
     (''shadow-xl'', double_layer cu ops t ''8px'' ''10px'')]"
  using getShadowMap_entries [OF assms] by (simp add: shadow_table_def)


text \<open>
  The table on the reference instance: the default light theme with a black shadow
  colour written as a hex literal.
\<close>

definition black_shadow_state :: ThemeEditorState where
  "black_shadow_state =
    \<lparr>styles = defaultThemeStyles\<lparr>light := Some (defaultLightThemeStyles(''shadow-color'' \<mapsto> ''#000000''))\<rparr>,
     currentMode = Light, preset = None\<rparr>"

definition black_shadow_tokens :: ShadowTokens where
  "black_shadow_tokens =
    \<lparr>shadowColor = ''#000000'', shadowOpacity = ''0.1'', shadowBlur = ''3px'',
     shadowSpread = ''0px'', shadowOffsetX = ''0'', shadowOffsetY = ''1px''\<rparr>"

lemma black_shadow_state_tokens:
  "effective_styles black_shadow_state ''shadow-color'' = Some (shadowColor black_shadow_tokens)"
  "effective_styles black_shadow_state ''shadow-opacity'' = Some (shadowOpacity black_shadow_tokens)"
  "effective_styles black_shadow_state ''shadow-blur'' = Some (shadowBlur black_shadow_tokens)"
  "effective_styles black_shadow_state ''shadow-spread'' = Some (shadowSpread black_shadow_tokens)"
  "effective_styles black_shadow_state ''shadow-offset-x'' = Some (shadowOffsetX black_shadow_tokens)"
  "effective_styles black_shadow_state ''shadow-offset-y'' = Some (shadowOffsetY black_shadow_tokens)"
  by (simp_all add: effective_styles_def black_shadow_state_def defaultThemeStyles_def
      defaultLightThemeStyles_def defaultLightThemeStyles_entries_def map_add_def
      black_shadow_tokens_def)

lemma black_shadow_colours:
  "shadow_hsl ref_culori ref_ops black_shadow_tokens ''0.5'' = ''hsl(0 0% 0% / 0.05)''"
  "shadow_hsl ref_culori ref_ops black_shadow_tokens ''1.0'' = ''hsl(0 0% 0% / 0.10)''"
  "shadow_hsl ref_culori ref_ops black_shadow_tokens ''2.5'' = ''hsl(0 0% 0% / 0.25)''"
  "spread_minus_one ref_ops black_shadow_tokens = ''-1px''"
  by (simp_all add: shadow_hsl_def spread_minus_one_def colorFormatter_def colorFormatter_try_def
      black_shadow_tokens_def ref_eval)

theorem getShadowMap_table_witness:
  "effective_styles black_shadow_state ''shadow-color'' = Some ''#000000''
   \<and> effective_styles black_shadow_state ''shadow-opacity'' = Some ''0.1''
   \<and> effective_styles black_shadow_state ''shadow-blur'' = Some ''3px''
   \<and> effective_styles black_shadow_state ''shadow-spread'' = Some ''0px''
   \<and> effective_styles black_shadow_state ''shadow-offset-x'' = Some ''0''
   \<and> effective_styles black_shadow_state ''shadow-offset-y'' = Some ''1px''
   \<and> getShadowMap ref_culori ref_ops black_shadow_state =
      [(''shadow-2xs'', ''0 1px 3px 0px hsl(0 0% 0% / 0.05)''),
       (''shadow-xs'', ''0 1px 3px 0px hsl(0 0% 0% / 0.05)''),
       (''shadow-2xl'', ''0 1px 3px 0px hsl(0 0% 0% / 0.25)''),
       (''shadow-sm'', ''0 1px 3px 0px hsl(0 0% 0% / 0.10), 0 1px 2px -1px hsl(0 0% 0% / 0.10)''),
       (''shadow'', ''0 1px 3px 0px hsl(0 0% 0% / 0.10), 0 1px 2px -1px hsl(0 0% 0% / 0.10)''),
       (''shadow-md'', ''0 1px 3px 0px hsl(0 0% 0% / 0.10), 0 2px 4px -1px hsl(0 0% 0% / 0.10)''),
       (''shadow-lg'', ''0 1px 3px 0px hsl(0 0% 0% / 0.10), 0 4px 6px -1px hsl(0 0% 0% / 0.10)''),
       (''shadow-xl'', ''0 1px 3px 0px hsl(0 0% 0% / 0.10), 0 8px 10px -1px hsl(0 0% 0% / 0.10)'')]"
proof -
  have tokens: "shadowOffsetX black_shadow_tokens = ''0''" "shadowOffsetY black_shadow_tokens = ''1px''"
    "shadowBlur black_shadow_tokens = ''3px''" "shadowSpread black_shadow_tokens = ''0px''"
    "shadowColor black_shadow_tokens = ''#000000''" "shadowOpacity black_shadow_tokens = ''0.1''"
    by (simp_all add: black_shadow_tokens_def)
  show ?thesis
    using getShadowMap_table [OF black_shadow_state_tokens, of ref_culori ref_ops]
    by (simp add: black_shadow_state_tokens black_shadow_colours single_layer_def double_layer_def
        shadow_term_def tokens)
qed

section \<open>Properties of the stylesheet generator\<close>

lemma generateThemeVariables_returns:
  assumes "mode_styles themeStyles mode = Some tokens"
  shows "\<exists>css. generateThemeVariables cu ops themeStyles mode formatColor = Inr css"
  using assms
  by (simp add: generateThemeVariables_def generateColorVariables_def generateFontVariables_def
      Let_def)

lemma generateTailwindV4ThemeInline_returns:
  assumes "light themeStyles = Some tokens"
  shows "\<exists>css. generateTailwindV4ThemeInline themeStyles = Inr css"
  using assms
  by (simp add: generateTailwindV4ThemeInline_def generateTrackingVariables_def)

text \<open>
  C6. \<open>generateThemeCode\<close> raises the error \<open>Invalid theme styles\<close> when the state is
  missing or its styles lack the light or the dark key; with both keys it raises
  nothing and returns a stylesheet.
\<close>

theorem generateThemeCode_validation:
  "generateThemeCode cu ops None colorFormat tailwindVersion = Inl InvalidThemeStyles
   \<and> (light (styles state) = None \<or> dark (styles state) = None \<longrightarrow>
        generateThemeCode cu ops (Some state) colorFormat tailwindVersion = Inl InvalidThemeStyles)
   \<and> (light (styles state) \<noteq> None \<and> dark (styles state) \<noteq> None \<longrightarrow>
        (\<exists>css. generateThemeCode cu ops (Some state) colorFormat tailwindVersion = Inr css))"
proof -
  have "\<exists>css. generateThemeCode cu ops (Some state) colorFormat tailwindVersion = Inr css"
    if l: "light (styles state) = Some lt" and d: "dark (styles state) = Some dt" for lt dt
  proof -
    have ml: "mode_styles (styles state) Light = Some lt"
      and md: "mode_styles (styles state) Dark = Some dt"
      using l d by simp_all
    obtain lightTheme where lv: "generateThemeVariables cu ops (styles state) Light
        (formatColor_of cu ops colorFormat tailwindVersion) = Inr lightTheme"
      using generateThemeVariables_returns
        [OF ml, of cu ops "formatColor_of cu ops colorFormat tailwindVersion"]
      by blast
    obtain darkTheme where dv: "generateThemeVariables cu ops (styles state) Dark
        (formatColor_of cu ops colorFormat tailwindVersion) = Inr darkTheme"
      using generateThemeVariables_returns
        [OF md, of cu ops "formatColor_of cu ops colorFormat tailwindVersion"]
      by blast
    obtain inline where iv: "generateTailwindV4ThemeInline (styles state) = Inr inline"
      using generateTailwindV4ThemeInline_returns [OF l] by blast
    show ?thesis
      by (simp add: generateThemeCode_def l d lv dv iv Let_def)
  qed
  then show ?thesis
    by (auto simp: generateThemeCode_def)
qed

theorem generateThemeCode_validation_witness:
  "light \<lparr>light = Some Map.empty, dark = None\<rparr> \<noteq> None
   \<and> dark \<lparr>light = Some Map.empty, dark = None\<rparr> = None
   \<and> generateThemeCode ref_culori ref_ops
        (Some \<lparr>styles = \<lparr>light = Some Map.empty, dark = None\<rparr>, currentMode = Light, preset = None\<rparr>)
        HSL V3 = Inl InvalidThemeStyles
   \<and> light defaultThemeStyles \<noteq> None \<and> dark defaultThemeStyles \<noteq> None
   \<and> (\<exists>css. generateThemeCode ref_culori ref_ops (Some (defaultThemeState False)) HSL V3 = Inr css)"
  using
    generateThemeCode_validation [of ref_culori ref_ops HSL V3
      "\<lparr>styles = \<lparr>light = Some Map.empty, dark = None\<rparr>, currentMode = Light, preset = None\<rparr>"]
    generateThemeCode_validation [of ref_culori ref_ops HSL V3 "defaultThemeState False"]
  by (simp add: defaultThemeState_def defaultThemeStyles_def)


section \<open>Properties of the contrast checker\<close>

subsection \<open>Printing to two decimals and reading back, on the reference runtime\<close>







subsection \<open>The ratio in exact arithmetic\<close>












section \<open>The importer on a block of declaration lines\<close>

subsection \<open>Scanning\<close>

lemma takeWhile_stop:
  assumes "\<forall>x \<in> set xs. P x" and "\<not> P c"
  shows "takeWhile P (xs @ c # rest) = xs" and "dropWhile P (xs @ c # rest) = c # rest"
  using assms by (simp_all add: takeWhile_append dropWhile_append)

lemma declaration_at_line:
  assumes "good_name name" and "CHR '';'' \<notin> set val"
  shows "declaration_at (''--'' @ name @ '': '' @ val @ '';'' @ rest)
    = Some (''--'' @ name @ '': '' @ val, '';'' @ rest)"
proof -
  let ?sp = "takeWhile is_space val" and ?v = "dropWhile is_space val"
  have name: "name \<noteq> []" "\<forall>x \<in> set name. x \<noteq> CHR '':''"
    using assms(1) by (auto simp: good_name_def)
  have n1: "takeWhile (\<lambda>x. x \<noteq> CHR '':'') (name @ CHR '':'' # CHR '' '' # val @ CHR '';'' # rest) = name"
    and n2: "dropWhile (\<lambda>x. x \<noteq> CHR '':'') (name @ CHR '':'' # CHR '' '' # val @ CHR '';'' # rest)
      = CHR '':'' # CHR '' '' # val @ CHR '';'' # rest"
    using name(2) by (simp_all add: takeWhile_stop)
  have semi: "\<not> is_space (CHR '';'')" and sp: "is_space (CHR '' '')"
    by (simp_all add: is_space_def)
  have val: "val = ?sp @ ?v"
    by simp
  have w1: "takeWhile is_space (val @ CHR '';'' # rest) = ?sp"
  proof (cases "?v")
    case Nil
    then have all: "\<forall>x \<in> set val. is_space x"
      by (metis dropWhile_eq_Nil_conv)
    then have tw: "takeWhile is_space val = val"
      by simp
    show ?thesis
      unfolding tw by (rule takeWhile_stop(1) [OF all semi])
  next
    case (Cons y ys)
    then have "\<not> is_space y"
      by (metis hd_dropWhile list.distinct(1) list.sel(1))
    moreover have "val @ CHR '';'' # rest = ?sp @ y # (ys @ CHR '';'' # rest)"
      using Cons by (metis append.assoc append_Cons takeWhile_dropWhile_id)
    moreover have "\<forall>x \<in> set ?sp. is_space x"
      by (metis set_takeWhileD)
    ultimately show ?thesis
      by (metis takeWhile_stop(1))
  qed
  have w2: "dropWhile is_space (val @ CHR '';'' # rest) = ?v @ CHR '';'' # rest"
  proof -
    have "takeWhile is_space (val @ CHR '';'' # rest) @ dropWhile is_space (val @ CHR '';'' # rest)
      = ?sp @ (?v @ CHR '';'' # rest)"
      by simp
    then show ?thesis
      unfolding w1 by simp
  qed
  have v: "\<forall>x \<in> set ?v. x \<noteq> CHR '';''"
    using assms(2) by (metis set_dropWhileD)
  have v1: "takeWhile (\<lambda>x. x \<noteq> CHR '';'') (?v @ CHR '';'' # rest) = ?v"
    and v2: "dropWhile (\<lambda>x. x \<noteq> CHR '';'') (?v @ CHR '';'' # rest) = CHR '';'' # rest"
    using v by (simp_all add: takeWhile_stop)
  show ?thesis
  proof (cases "?v = []")
    case True
    then have "?sp = val"
      using val by simp
    then show ?thesis
      using name(1) True sp
      by (simp add: declaration_at_def n1 n2 w1 w2 v1 v2 Let_def)
  next
    case False
    then show ?thesis
      using name(1) sp val
      by (simp add: declaration_at_def n1 n2 w1 w2 v1 v2 Let_def)
  qed
qed

declare declarations.simps [simp del]

lemma declarations_match:
  assumes "declaration_at s = Some (matched, rest)"
  shows "declarations s = matched # declarations rest"
proof (cases s)
  case Nil
  with assms show ?thesis
    by (simp add: declaration_at_def)
next
  case (Cons c cs)
  with assms show ?thesis
    by (simp add: declarations.simps)
qed

lemma declarations_skip:
  assumes "c \<noteq> CHR ''-''"
  shows "declarations (c # s) = declarations s"
  using assms by (simp add: declarations.simps declaration_at_def)

lemma declarations_skip_spaces:
  assumes "list_all is_space sep"
  shows "declarations (sep @ s) = declarations s"
  using assms
proof (induction sep)
  case Nil
  then show ?case by simp
next
  case (Cons c sep)
  then have "c \<noteq> CHR ''-''"
    by (auto simp: is_space_def)
  with Cons show ?case
    by (simp add: declarations_skip)
qed

lemma declarations_lines:
  assumes "list_all good_line ls"
  shows "declarations (lines_text ls @ rest) = map line_declaration ls @ declarations rest"
  using assms
proof (induction ls)
  case Nil
  then show ?case by simp
next
  case (Cons l ls)
  obtain sep name val where l: "l = (sep, name, val)"
    by (cases l)
  from Cons.prems have gl: "good_line l" and gs: "list_all good_line ls"
    by simp_all
  from gl l have g: "list_all is_space sep" "good_name name" "CHR '';'' \<notin> set val"
    by (simp_all add: good_line_def)
  have "declarations (lines_text (l # ls) @ rest)
    = declarations (''--'' @ name @ '': '' @ val @ '';'' @ (lines_text ls @ rest))"
    using declarations_skip_spaces [OF g(1)] by (simp add: l)
  also have "\<dots> = (''--'' @ name @ '': '' @ val) # declarations ('';'' @ (lines_text ls @ rest))"
    by (rule declarations_match [OF declaration_at_line [OF g(2, 3)]])
  also have "declarations ('';'' @ (lines_text ls @ rest)) = declarations (lines_text ls @ rest)"
    by (simp add: declarations_skip)
  finally show ?case
    using Cons.IH [OF gs] by (simp add: l line_declaration_def)
qed

subsection \<open>Trimming\<close>

lemma trim_id:
  assumes "s \<noteq> []" and "\<not> is_space (hd s)" and "\<not> is_space (last s)"
  shows "trim s = s"
proof -
  have a: "dropWhile is_space s = s"
    using assms(1, 2) by (cases s) simp_all
  have "hd (rev s) = last s"
    using assms(1) by (simp add: hd_rev)
  then have "dropWhile is_space (rev s) = rev s"
    using assms(3) by (simp add: dropWhile_eq_self_iff)
  with a show ?thesis
    by (simp add: trim_def)
qed

lemma trim_padded:
  assumes "list_all is_space a" and "list_all is_space b"
    and "s \<noteq> []" and "\<not> is_space (hd s)" and "\<not> is_space (last s)"
  shows "trim (a @ s @ b) = s"
proof -
  have a: "dropWhile is_space (a @ s @ b) = s @ b"
    using assms(1, 3, 4) by (cases s) (simp_all add: dropWhile_append list_all_iff)
  have "hd (rev s) = last s"
    using assms(3) by (simp add: hd_rev)
  then have "dropWhile is_space (rev s) = rev s"
    using assms(5) by (simp add: dropWhile_eq_self_iff)
  then have "dropWhile is_space (rev b @ rev s) = rev s"
    using assms(2) by (simp add: dropWhile_append list_all_iff)
  with a show ?thesis
    by (simp add: trim_def)
qed

lemma lines_text_last:
  assumes "ls \<noteq> []"
  shows "lines_text ls \<noteq> [] \<and> last (lines_text ls) = CHR '';''"
  using assms
proof (induction ls)
  case Nil
  then show ?case by simp
next
  case (Cons l ls)
  obtain sep name val where l: "l = (sep, name, val)"
    by (cases l)
  show ?case
  proof (cases "ls = []")
    case True
    then show ?thesis by (simp add: l)
  next
    case False
    with Cons.IH show ?thesis by (simp add: l)
  qed
qed

text \<open>The trimmed content of a block loses the separator of its first line.\<close>

lemma trim_block:
  assumes "list_all is_space sep"
  shows "trim (lines_text ((sep, name, val) # ls) @ ''\<newline>'') = lines_text (([], name, val) # ls)"
proof -
  have "lines_text (([], name, val) # ls) \<noteq> []
    \<and> last (lines_text (([], name, val) # ls)) = CHR '';''"
    by (rule lines_text_last) simp
  moreover have "hd (lines_text (([], name, val) # ls)) = CHR ''-''"
    by simp
  moreover have "list_all is_space ''\<newline>''"
    by (simp add: is_space_def)
  ultimately have "trim (sep @ lines_text (([], name, val) # ls) @ ''\<newline>'')
    = lines_text (([], name, val) # ls)"
    using assms by (intro trim_padded) (simp_all add: is_space_def)
  then show ?thesis
    by simp
qed


subsection \<open>One declaration\<close>

lemma replace_first_prefix: "replace_first pat rep (pat @ s) = rep @ s"
proof (cases "pat @ s")
  case Nil
  then show ?thesis by simp
next
  case (Cons a l)
  have "prefix pat (a # l)"
    by (metis Cons prefixI)
  moreover have "drop (length pat) (a # l) = s"
    by (metis Cons append_eq_conv_conj)
  ultimately show ?thesis
    unfolding Cons by simp
qed

lemma line_declaration_name:
  assumes "good_name name"
  shows "replace_first ''--'' [] (declaration_name (line_declaration (sep, name, val))) = name"
proof -
  have "\<forall>x \<in> set (''--'' @ name). x \<noteq> CHR '':''"
    using assms by (auto simp: good_name_def)
  then have "takeWhile (\<lambda>x. x \<noteq> CHR '':'') ((''--'' @ name) @ CHR '':'' # CHR '' '' # val) = ''--'' @ name"
    by (intro takeWhile_stop(1)) simp_all
  moreover have "trim (''--'' @ name) = ''--'' @ name"
    using assms by (intro trim_id) (simp_all add: good_name_def is_space_def)
  ultimately have "declaration_name (line_declaration (sep, name, val)) = ''--'' @ name"
    by (simp add: declaration_name_def line_declaration_def)
  then show ?thesis
    using replace_first_prefix [of "''--''" "[]" name] by simp
qed

lemma line_declaration_value:
  assumes "good_name name"
  shows "declaration_value (line_declaration (sep, name, val))
    = Some (trim (CHR '' '' # takeWhile (\<lambda>x. x \<noteq> CHR '':'') val))"
proof -
  have "\<forall>x \<in> set (''--'' @ name). x \<noteq> CHR '':''"
    using assms by (auto simp: good_name_def)
  then have "dropWhile (\<lambda>x. x \<noteq> CHR '':'') ((''--'' @ name) @ CHR '':'' # CHR '' '' # val)
    = CHR '':'' # CHR '' '' # val"
    by (intro takeWhile_stop(2)) simp_all
  then show ?thesis
    by (simp add: declaration_value_def line_declaration_def)
qed

text \<open>A declaration changes the entry of its own name only.\<close>

lemma parseDeclaration_other:
  assumes "good_name name" and "key \<noteq> name"
  shows "parseDeclaration cu ops validNames (line_declaration (sep, name, val)) target key = target key"
  using assms(2) by (simp add: parseDeclaration_def line_declaration_name [OF assms(1)] Let_def)

lemma hex_literal_chars:
  assumes "hex_literal s"
  shows "s \<noteq> []" and "hd s = CHR ''#''" and "is_hex_digit (last s)"
    and "\<forall>x \<in> set s. x \<noteq> CHR '':'' \<and> x \<noteq> CHR '';'' \<and> x \<noteq> CHR ''{'' \<and> x \<noteq> CHR ''}''"
proof -
  from assms obtain ds where s: "s = CHR ''#'' # ds" and ds: "ds \<noteq> []" "list_all is_hex_digit ds"
    by (auto simp: hex_literal_def split: list.splits)
  show "s \<noteq> []" and "hd s = CHR ''#''"
    by (simp_all add: s)
  show "is_hex_digit (last s)"
    using ds by (simp add: s list_all_iff)
  have "x \<noteq> CHR '':'' \<and> x \<noteq> CHR '';'' \<and> x \<noteq> CHR ''{'' \<and> x \<noteq> CHR ''}''" if "is_hex_digit x" for x
    using that by (auto simp: is_hex_digit_def)
  then show "\<forall>x \<in> set s. x \<noteq> CHR '':'' \<and> x \<noteq> CHR '';'' \<and> x \<noteq> CHR ''{'' \<and> x \<noteq> CHR ''}''"
    using ds(2) by (auto simp: s list_all_iff)
qed

lemma hex_literal_value:
  assumes "hex_literal s"
  shows "processColorValue (trim (CHR '' '' # takeWhile (\<lambda>x. x \<noteq> CHR '':'') s)) = s"
proof -
  note h = hex_literal_chars [OF assms]
  have tw: "takeWhile (\<lambda>x. x \<noteq> CHR '':'') s = s"
    using h(4) by simp
  have "\<not> is_space (last s)"
    using h(3) by (auto simp: is_hex_digit_def is_space_def)
  then have "trim ('' '' @ s @ []) = s"
    using h(1, 2) by (intro trim_padded) (simp_all add: is_space_def)
  then have tr: "trim (CHR '' '' # s) = s"
    by simp
  have "processColorValue s = s"
    using h(1, 2) by (cases s) (simp_all add: processColorValue_def is_digit_def)
  then show ?thesis
    unfolding tw tr .
qed

lemma color_keys_valid:
  "\<forall>key \<in> set color_keys. key \<in> set variableNames \<and> key \<notin> set nonColorVariables"
  by (simp add: color_keys_def variableNames_def nonColorVariables_def COMMON_STYLES_def
      defaultLightThemeStyles_entries_def)

lemma parseDeclaration_color:
  assumes "good_name key" and "key \<in> set color_keys" and "hex_stable cu ops val"
  shows "parseDeclaration cu ops variableNames (line_declaration (sep, key, val)) target key = Some val"
proof -
  have "key \<in> set variableNames" and "key \<notin> set nonColorVariables"
    using assms(2) color_keys_valid by auto
  moreover have "colorFormatter cu ops
      (processColorValue (trim (CHR '' '' # takeWhile (\<lambda>x. x \<noteq> CHR '':'') val))) HEX V3 = val"
    using assms(3) by (simp add: hex_stable_def hex_literal_value)
  ultimately show ?thesis
    by (simp add: parseDeclaration_def line_declaration_name [OF assms(1)]
        line_declaration_value [OF assms(1)] Let_def)
qed

subsection \<open>All declarations of a block\<close>

lemma fold_parseDeclaration_other:
  assumes "list_all good_line ls" and "key \<notin> set (map (\<lambda>l. fst (snd l)) ls)"
  shows "fold (parseDeclaration cu ops validNames) (map line_declaration ls) target key = target key"
  using assms
proof (induction ls arbitrary: target)
  case Nil
  then show ?case by simp
next
  case (Cons l ls)
  obtain sep name val where l: "l = (sep, name, val)"
    by (cases l)
  from Cons.prems(1) have "good_line l" and gs: "list_all good_line ls"
    by simp_all
  then have "good_name name"
    by (simp add: l good_line_def)
  moreover have "key \<noteq> name" and ks: "key \<notin> set (map (\<lambda>l. fst (snd l)) ls)"
    using Cons.prems(2) by (simp_all add: l)
  ultimately show ?case
    using Cons.IH [OF gs ks] by (simp add: l parseDeclaration_other)
qed

text \<open>
  The entry of a colour key after a block: the value of the last line of that name,
  when that value is a hex literal which the converter leaves as it is.
\<close>

lemma fold_parseDeclaration_color:
  assumes "list_all good_line (before @ (sep, key, val) # after)"
    and "key \<notin> set (map (\<lambda>l. fst (snd l)) after)"
    and "key \<in> set color_keys" and "hex_stable cu ops val"
  shows "fold (parseDeclaration cu ops variableNames)
      (map line_declaration (before @ (sep, key, val) # after)) target key = Some val"
proof -
  from assms(1) have g: "good_name key" and ga: "list_all good_line after"
    by (simp_all add: good_line_def)
  show ?thesis
    by (simp add: fold_parseDeclaration_other [OF ga assms(2)]
        parseDeclaration_color [OF g assms(3, 4)])
qed

subsection \<open>Finding the blocks\<close>

lemma block_at_found:
  assumes "CHR ''}'' \<notin> set body" and "body \<noteq> []" and "selector \<noteq> []"
  shows "first_block selector (selector @ '' {'' @ body @ ''}'' @ rest) = Some body"
proof -
  have "takeWhile (\<lambda>x. x \<noteq> CHR ''}'') (body @ CHR ''}'' # rest) = body"
    and "dropWhile (\<lambda>x. x \<noteq> CHR ''}'') (body @ CHR ''}'' # rest) = CHR ''}'' # rest"
    using assms(1) by (auto intro!: takeWhile_stop)
  then have "block_at selector (selector @ '' {'' @ body @ ''}'' @ rest) = Some body"
    using assms(2) by (simp add: block_at_def is_space_def)
  then show ?thesis
    using assms(3) by (cases selector) simp_all
qed

lemma block_at_dark_none:
  assumes "CHR ''{'' \<notin> set (c # s)"
  shows "block_at ''.dark'' ((c # s) @ ''.dark {'' @ rest) = None"
proof -
  define x where "x = (c # s) @ ''.dark {'' @ rest"
  define t where "t = drop (length ''.dark'') x"
  have t5: "t = drop 5 x"
    by (simp add: t_def eval_nat_numeral)
  have d: "dropWhile is_space t = [] \<or> hd (dropWhile is_space t) \<noteq> CHR ''{''"
  proof (cases "length s < 4")
    case True
    then consider "length s = 0" | "length s = 1" | "length s = 2" | "length s = 3"
      by linarith
    then show ?thesis
    proof cases
      case 1
      then show ?thesis by (simp add: t5 x_def is_space_def)
    next
      case 2
      then obtain a where "s = [a]"
        by (cases s) auto
      then show ?thesis by (simp add: t5 x_def is_space_def)
    next
      case 3
      then obtain a b where "s = [a, b]"
        by (cases s; cases "tl s") auto
      then show ?thesis by (simp add: t5 x_def is_space_def)
    next
      case 4
      then obtain a b d where "s = [a, b, d]"
        by (cases s; cases "tl s"; cases "tl (tl s)") auto
      then show ?thesis by (simp add: t5 x_def is_space_def)
    qed
  next
    case False
    then have t: "t = drop 5 (c # s) @ ''.dark {'' @ rest"
      by (simp add: t5 x_def)
    show ?thesis
    proof (cases "\<forall>y \<in> set (drop 5 (c # s)). is_space y")
      case True
      then have "dropWhile is_space t = ''.dark {'' @ rest"
        unfolding t by (simp add: dropWhile_append is_space_def)
      then show ?thesis by simp
    next
      case False
      then have "dropWhile is_space t = dropWhile is_space (drop 5 (c # s)) @ ''.dark {'' @ rest"
        and ne: "dropWhile is_space (drop 5 (c # s)) \<noteq> []"
        unfolding t by (auto simp: dropWhile_append)
      then have "hd (dropWhile is_space t) = hd (dropWhile is_space (drop 5 (c # s)))"
        by simp
      moreover have "hd (dropWhile is_space (drop 5 (c # s))) \<in> set (c # s)"
        using ne by (metis hd_in_set in_set_dropD set_dropWhileD)
      ultimately show ?thesis
        using assms by metis
    qed
  qed
  have "block_at ''.dark'' x = None"
  proof (cases "dropWhile is_space t")
    case Nil
    show ?thesis
      unfolding block_at_def t_def [symmetric] Nil by simp
  next
    case (Cons y ys)
    with d have "y \<noteq> CHR ''{''"
      by simp
    then show ?thesis
      unfolding block_at_def t_def [symmetric] Cons by simp
  qed
  then show ?thesis
    by (simp only: x_def)
qed

lemma first_block_dark_skip:
  assumes "CHR ''{'' \<notin> set pre"
  shows "first_block ''.dark'' (pre @ ''.dark {'' @ rest) = first_block ''.dark'' (''.dark {'' @ rest)"
  using assms
proof (induction pre)
  case Nil
  then show ?case by simp
next
  case (Cons c pre)
  then have "block_at ''.dark'' ((c # pre) @ ''.dark {'' @ rest) = None"
    by (intro block_at_dark_none) simp
  with Cons show ?case
    by simp
qed

lemma first_block_root_prefix:
  "first_block ''.dark'' ('':root {'' @ s) = first_block ''.dark'' s"
  by (simp add: block_at_def)


section \<open>The round trip of the colour tokens\<close>

subsection \<open>The generated blocks\<close>

lemma generateThemeVariables_shape:
  assumes "mode_styles themeStyles mode = Some tokens"
  shows "generateThemeVariables cu ops themeStyles mode formatColor =
    Inr ((if mode = Dark then ''.dark'' else '':root'') @ '' {''
         @ lines_text (indented (color_lines tokens formatColor
                                 @ other_lines cu ops themeStyles mode tokens))
         @ ''\<newline>}'')"
  using assms
  by (simp add: generateThemeVariables_def generateColorVariables_def generateFontVariables_def
      generateShadowVariables_def color_lines_def color_keys_def other_lines_def indented_def
      Let_def)

definition other_names :: "string list" where
  "other_names =
    [''font-sans'', ''font-serif'', ''font-mono'', ''radius'', ''shadow-2xs'', ''shadow-xs'',
     ''shadow-sm'', ''shadow'', ''shadow-md'', ''shadow-lg'', ''shadow-xl'', ''shadow-2xl'',
     ''tracking-normal'', ''spacing'']"

lemma other_lines_names:
  "set (map fst (other_lines cu ops themeStyles mode tokens)) \<subseteq> set other_names"
  by (auto simp: other_lines_def other_names_def)

lemma color_lines_names: "map fst (color_lines tokens formatColor) = color_keys"
  by (simp add: color_lines_def comp_def)

lemma names_good:
  "\<forall>name \<in> set color_keys \<union> set other_names.
     good_name name \<and> CHR ''{'' \<notin> set name \<and> CHR ''}'' \<notin> set name"
  by (simp add: color_keys_def other_names_def good_name_def is_space_def)

lemma names_disjoint: "set color_keys \<inter> set other_names = {}"
  by (simp add: color_keys_def other_names_def)

lemma color_keys_distinct: "distinct color_keys"
  by (simp add: color_keys_def)

text \<open>The lines of a block under the hypotheses of the round trip.\<close>

definition block_lines ::
  "('c, 'n) Culori \<Rightarrow> 'n Number_ops \<Rightarrow> ThemeStyles \<Rightarrow> ThemeMode \<Rightarrow> ThemeStyleProps
    \<Rightarrow> (string option \<Rightarrow> string) \<Rightarrow> (string \<times> string \<times> string) list" where
  "block_lines cu ops themeStyles mode tokens formatColor =
    indented (color_lines tokens formatColor @ other_lines cu ops themeStyles mode tokens)"

lemma block_lines_good:
  assumes "\<forall>key \<in> set color_keys. hex_literal (formatColor (tokens key))"
    and "\<forall>line \<in> set (other_lines cu ops themeStyles mode tokens). css_safe (snd line)"
  shows "list_all good_line (block_lines cu ops themeStyles mode tokens formatColor)"
    and "CHR ''{'' \<notin> set (lines_text (block_lines cu ops themeStyles mode tokens formatColor))"
    and "CHR ''}'' \<notin> set (lines_text (block_lines cu ops themeStyles mode tokens formatColor))"
proof -
  let ?ls = "color_lines tokens formatColor @ other_lines cu ops themeStyles mode tokens"
  have each: "good_name name \<and> CHR ''{'' \<notin> set name \<and> CHR ''}'' \<notin> set name
      \<and> CHR '';'' \<notin> set val \<and> CHR ''{'' \<notin> set val \<and> CHR ''}'' \<notin> set val"
    if "(name, val) \<in> set ?ls" for name val
  proof (cases "(name, val) \<in> set (color_lines tokens formatColor)")
    case True
    then obtain key where "key \<in> set color_keys" and "name = key"
      and "val = formatColor (tokens key)"
      by (auto simp: color_lines_def)
    then show ?thesis
      using assms(1) names_good hex_literal_chars(4) by fastforce
  next
    case False
    with that have o: "(name, val) \<in> set (other_lines cu ops themeStyles mode tokens)"
      by simp
    then have "name \<in> set other_names"
      using other_lines_names [of cu ops themeStyles mode tokens] by force
    with o show ?thesis
      using assms(2) names_good by (fastforce simp: css_safe_def)
  qed
  have sep: "list_all is_space ''\<newline>  ''"
    and sepc: "CHR ''{'' \<notin> set ''\<newline>  ''" "CHR ''}'' \<notin> set ''\<newline>  ''"
    by (simp_all add: is_space_def)
  show "list_all good_line (block_lines cu ops themeStyles mode tokens formatColor)"
    using each sep
    by (auto simp: block_lines_def indented_def list_all_iff good_line_def)
  have chars: "c \<notin> set (lines_text (indented ls))"
    if "c = CHR ''{'' \<or> c = CHR ''}''"
      and "\<forall>(name, val) \<in> set ls. c \<notin> set name \<and> c \<notin> set val" for c ls
    using that
  proof (induction ls)
    case Nil
    then show ?case by (simp add: indented_def)
  next
    case (Cons l ls)
    obtain name val where l: "l = (name, val)"
      by (cases l)
    from Cons show ?case
      by (auto simp: l indented_def)
  qed
  show "CHR ''{'' \<notin> set (lines_text (block_lines cu ops themeStyles mode tokens formatColor))"
    unfolding block_lines_def using each by (intro chars) auto
  show "CHR ''}'' \<notin> set (lines_text (block_lines cu ops themeStyles mode tokens formatColor))"
    unfolding block_lines_def using each by (intro chars) auto
qed

text \<open>What the importer makes of the content of one block.\<close>

lemma block_lines_first:
  "\<exists>val rest. block_lines cu ops themeStyles mode tokens formatColor
    = (''\<newline>  '', ''background'', val) # rest"
  by (simp add: block_lines_def indented_def color_lines_def color_keys_def)

lemma block_content:
  assumes "list_all good_line (block_lines cu ops themeStyles mode tokens formatColor)"
  shows "trim (lines_text (block_lines cu ops themeStyles mode tokens formatColor) @ ''\<newline>'') \<noteq> []"
    and "declarations (trim (lines_text (block_lines cu ops themeStyles mode tokens formatColor) @ ''\<newline>''))
      = map line_declaration (block_lines cu ops themeStyles mode tokens formatColor)"
proof -
  let ?ls = "block_lines cu ops themeStyles mode tokens formatColor"
  obtain val rest where ls: "?ls = (''\<newline>  '', ''background'', val) # rest"
    using block_lines_first by blast
  have t: "trim (lines_text ?ls @ ''\<newline>'') = lines_text (([], ''background'', val) # rest)"
    unfolding ls by (rule trim_block) (simp add: is_space_def)
  show "trim (lines_text ?ls @ ''\<newline>'') \<noteq> []"
    unfolding t by simp
  have "list_all good_line (([], ''background'', val) # rest)"
    using assms unfolding ls by (simp add: good_line_def)
  from declarations_lines [OF this, of "[]"]
  have "declarations (lines_text (([], ''background'', val) # rest))
    = map line_declaration (([], ''background'', val) # rest)"
    by (simp add: declarations.simps)
  also have "\<dots> = map line_declaration ?ls"
    unfolding ls by (simp add: line_declaration_def)
  finally show "declarations (trim (lines_text ?ls @ ''\<newline>'')) = map line_declaration ?ls"
    unfolding t .
qed

lemma block_color_entry:
  assumes "\<forall>key \<in> set color_keys. hex_stable cu ops (formatColor (tokens key))"
    and "\<forall>line \<in> set (other_lines cu ops themeStyles mode tokens). css_safe (snd line)"
    and "key \<in> set color_keys"
  shows "parseColorVariables cu ops
      (trim (lines_text (block_lines cu ops themeStyles mode tokens formatColor) @ ''\<newline>''))
      Map.empty variableNames key
    = Some (formatColor (tokens key))"
proof -
  let ?ls = "block_lines cu ops themeStyles mode tokens formatColor"
  let ?line = "\<lambda>(name, val). (''\<newline>  '', name, val)"
  let ?col = "\<lambda>key. (key, formatColor (tokens key))"
  have hex: "\<forall>key \<in> set color_keys. hex_literal (formatColor (tokens key))"
    using assms(1) by (simp add: hex_stable_def)
  have good: "list_all good_line ?ls"
    by (rule block_lines_good(1) [OF hex assms(2)])
  obtain ys zs where split: "color_keys = ys @ key # zs"
    using assms(3) by (meson split_list)
  have "distinct (ys @ key # zs)"
    using color_keys_distinct unfolding split .
  then have kz: "key \<notin> set zs"
    by simp
  define before where "before = map ?line (map ?col ys)"
  define after where "after = map ?line (map ?col zs @ other_lines cu ops themeStyles mode tokens)"
  have ls: "?ls = before @ (''\<newline>  '', key, formatColor (tokens key)) # after"
    by (simp add: block_lines_def indented_def color_lines_def split before_def after_def)
  have "map (\<lambda>l. fst (snd l)) after = zs @ map fst (other_lines cu ops themeStyles mode tokens)"
    by (simp add: after_def comp_def case_prod_beta)
  moreover have "key \<notin> set (map fst (other_lines cu ops themeStyles mode tokens))"
    using assms(3) names_disjoint other_lines_names [of cu ops themeStyles mode tokens] by auto
  ultimately have ka: "key \<notin> set (map (\<lambda>l. fst (snd l)) after)"
    using kz by simp
  have "list_all good_line (before @ (''\<newline>  '', key, formatColor (tokens key)) # after)"
    using good unfolding ls .
  then have "fold (parseDeclaration cu ops variableNames)
      (map line_declaration (before @ (''\<newline>  '', key, formatColor (tokens key)) # after))
      Map.empty key = Some (formatColor (tokens key))"
    using assms(1, 3) by (intro fold_parseDeclaration_color ka) simp_all
  then have "fold (parseDeclaration cu ops variableNames) (map line_declaration ?ls) Map.empty key
    = Some (formatColor (tokens key))"
    unfolding ls .
  then show ?thesis
    unfolding parseColorVariables_def block_content(2) [OF good] .
qed


subsection \<open>The whole stylesheet\<close>

lemma generateThemeCode_shape:
  assumes "light (styles state) = Some lightTokens" and "dark (styles state) = Some darkTokens"
  shows "\<exists>rest. generateThemeCode cu ops (Some state) colorFormat tailwindVersion =
    Inr ('':root {''
         @ lines_text (block_lines cu ops (styles state) Light lightTokens
             (formatColor_of cu ops colorFormat tailwindVersion))
         @ ''\<newline>}\<newline>\<newline>'' @ ''.dark {''
         @ lines_text (block_lines cu ops (styles state) Dark darkTokens
             (formatColor_of cu ops colorFormat tailwindVersion))
         @ ''\<newline>}'' @ rest)"
proof -
  have ml: "mode_styles (styles state) Light = Some lightTokens"
    and md: "mode_styles (styles state) Dark = Some darkTokens"
    using assms by simp_all
  obtain inline where iv: "generateTailwindV4ThemeInline (styles state) = Inr inline"
    using generateTailwindV4ThemeInline_returns [OF assms(1)] by blast
  show ?thesis
    by (simp add: generateThemeCode_def assms iv Let_def block_lines_def
        generateThemeVariables_shape [OF ml] generateThemeVariables_shape [OF md])
qed

lemma extract_root_block:
  assumes "CHR ''}'' \<notin> set body" and "trim (body @ ''\<newline>'') \<noteq> []"
  shows "extractCssBlockContent ('':root {'' @ body @ ''\<newline>}'' @ rest) '':root''
    = Some (trim (body @ ''\<newline>''))"
proof -
  have "first_block '':root'' ('':root'' @ '' {'' @ (body @ ''\<newline>'') @ ''}'' @ rest)
    = Some (body @ ''\<newline>'')"
    using assms(1) by (intro block_at_found) simp_all
  then show ?thesis
    using assms(2) by (simp add: extractCssBlockContent_def)
qed

lemma extract_dark_block:
  assumes "CHR ''{'' \<notin> set pre" and "CHR ''}'' \<notin> set body" and "trim (body @ ''\<newline>'') \<noteq> []"
  shows "extractCssBlockContent ('':root {'' @ pre @ ''.dark {'' @ body @ ''\<newline>}'' @ rest) ''.dark''
    = Some (trim (body @ ''\<newline>''))"
proof -
  have "first_block ''.dark'' ('':root {'' @ pre @ ''.dark {'' @ body @ ''\<newline>}'' @ rest)
    = first_block ''.dark'' (pre @ ''.dark {'' @ body @ ''\<newline>}'' @ rest)"
    by (rule first_block_root_prefix)
  also have "\<dots> = first_block ''.dark'' (''.dark {'' @ body @ ''\<newline>}'' @ rest)"
    by (rule first_block_dark_skip [OF assms(1)])
  also have "\<dots> = first_block ''.dark'' (''.dark'' @ '' {'' @ (body @ ''\<newline>'') @ ''}'' @ rest)"
    by simp
  also have "\<dots> = Some (body @ ''\<newline>'')"
    using assms(2) by (intro block_at_found) simp_all
  finally show ?thesis
    using assms(3) by (simp add: extractCssBlockContent_def)
qed

text \<open>
  C7 as stated fails: see the counterexample below. C7, amended: let the state have
  both modes, let the generator (format hex) turn every colour token of each mode into
  a hex literal that the converter leaves as it is, and let no value that is written as
  it is (fonts, radius, shadows, letter spacing, spacing) contain a semicolon or a
  brace. Then the generator returns a stylesheet, and \<open>parseCssInput\<close> reads from it,
  for each of the 32 colour tokens and each mode, the hex value that the generator
  wrote.
\<close>

theorem import_round_trip:
  assumes "light (styles state) = Some lightTokens" and "dark (styles state) = Some darkTokens"
    and "\<forall>key \<in> set color_keys.
      hex_stable cu ops (formatColor_of cu ops HEX tailwindVersion (lightTokens key))"
    and "\<forall>key \<in> set color_keys.
      hex_stable cu ops (formatColor_of cu ops HEX tailwindVersion (darkTokens key))"
    and "\<forall>line \<in> set (other_lines cu ops (styles state) Light lightTokens). css_safe (snd line)"
    and "\<forall>line \<in> set (other_lines cu ops (styles state) Dark darkTokens). css_safe (snd line)"
  shows "\<exists>css. generateThemeCode cu ops (Some state) HEX tailwindVersion = Inr css
    \<and> (\<forall>key \<in> set color_keys.
         lightColors (parseCssInput cu ops css) key
           = Some (formatColor_of cu ops HEX tailwindVersion (lightTokens key))
         \<and> darkColors (parseCssInput cu ops css) key
           = Some (formatColor_of cu ops HEX tailwindVersion (darkTokens key)))"
proof -
  let ?fc = "formatColor_of cu ops HEX tailwindVersion"
  let ?L = "block_lines cu ops (styles state) Light lightTokens ?fc"
  let ?D = "block_lines cu ops (styles state) Dark darkTokens ?fc"
  obtain rest where css: "generateThemeCode cu ops (Some state) HEX tailwindVersion =
    Inr ('':root {'' @ lines_text ?L @ ''\<newline>}\<newline>\<newline>'' @ ''.dark {'' @ lines_text ?D
         @ ''\<newline>}'' @ rest)"
    using generateThemeCode_shape [OF assms(1, 2)] by blast
  define sheet where "sheet = '':root {'' @ lines_text ?L @ ''\<newline>}\<newline>\<newline>'' @ ''.dark {''
    @ lines_text ?D @ ''\<newline>}'' @ rest"
  have hl: "\<forall>key \<in> set color_keys. hex_literal (?fc (lightTokens key))"
    and hd: "\<forall>key \<in> set color_keys. hex_literal (?fc (darkTokens key))"
    using assms(3, 4) by (simp_all add: hex_stable_def)
  note gl = block_lines_good [OF hl assms(5)]
  note gd = block_lines_good [OF hd assms(6)]
  have root: "extractCssBlockContent sheet '':root'' = Some (trim (lines_text ?L @ ''\<newline>''))"
  proof -
    have "extractCssBlockContent ('':root {'' @ lines_text ?L @ ''\<newline>}''
        @ (''\<newline>\<newline>'' @ ''.dark {'' @ lines_text ?D @ ''\<newline>}'' @ rest)) '':root''
      = Some (trim (lines_text ?L @ ''\<newline>''))"
      by (rule extract_root_block [OF gl(3) block_content(1) [OF gl(1)]])
    then show ?thesis
      by (simp add: sheet_def)
  qed
  have dark: "extractCssBlockContent sheet ''.dark'' = Some (trim (lines_text ?D @ ''\<newline>''))"
  proof -
    have pre: "CHR ''{'' \<notin> set (lines_text ?L @ ''\<newline>}\<newline>\<newline>'')"
      using gl(2) by simp
    have "extractCssBlockContent ('':root {'' @ (lines_text ?L @ ''\<newline>}\<newline>\<newline>'')
        @ ''.dark {'' @ lines_text ?D @ ''\<newline>}'' @ rest) ''.dark''
      = Some (trim (lines_text ?D @ ''\<newline>''))"
      by (rule extract_dark_block [OF pre gd(3) block_content(1) [OF gd(1)]])
    then show ?thesis
      by (simp add: sheet_def)
  qed
  have "lightColors (parseCssInput cu ops sheet) key = Some (?fc (lightTokens key))
      \<and> darkColors (parseCssInput cu ops sheet) key = Some (?fc (darkTokens key))"
    if "key \<in> set color_keys" for key
    using block_color_entry [OF assms(3, 5) that] block_color_entry [OF assms(4, 6) that]
    by (simp add: parseCssInput_def root dark)
  then show ?thesis
    using css by (simp add: sheet_def)
qed


subsection \<open>The round trip on the reference instance\<close>

text \<open>
  The reference colour library parses exactly the six-digit hex literals, and what it
  formats as hex it parses back to the same colour.
\<close>

definition hex6 :: "string \<Rightarrow> bool" where
  "hex6 s =
    (case s of [] \<Rightarrow> False
     | c # ds \<Rightarrow> c = CHR ''#'' \<and> length ds = 6 \<and> list_all is_hex_digit ds)"

lemma digit_char_hex:
  assumes "d < 16"
  shows "is_hex_digit (digit_char d) \<and> digit_value (digit_char d) = d"
proof -
  from assms have "d \<in> {0, 1, 2, 3, 4, 5, 6, 7, 8, 9, 10, 11, 12, 13, 14, 15}"
    by simp arith
  then show ?thesis
    by (auto simp: digit_char_def is_hex_digit_def digit_value_def)
qed

lemma hex2_value:
  "is_hex_digit (digit_char (min n 255 div 16)) \<and> is_hex_digit (digit_char (min n 255 mod 16))
   \<and> digits_value 16 (hex2 n) = min n 255"
proof -
  have a: "min n 255 div 16 < 16" and b: "min n 255 mod 16 < 16"
    by simp_all
  show ?thesis
    using digit_char_hex [OF a] digit_char_hex [OF b]
    by (simp add: hex2_def digits_value_def)
qed

lemma ref_parse_formatHex:
  "ref_parse (ref_formatHex (r, g, b)) = Some (min r 255, min g 255, min b 255)"
  using hex2_value [of r] hex2_value [of g] hex2_value [of b]
  by (simp add: ref_parse_def ref_formatHex_def) (simp add: hex2_def)

lemma ref_formatHex_literal: "hex_literal (ref_formatHex (r, g, b))"
  using hex2_value [of r] hex2_value [of g] hex2_value [of b]
  by (simp add: hex_literal_def ref_formatHex_def hex2_def)

lemma ref_formatHex_min: "ref_formatHex (min r 255, min g 255, min b 255) = ref_formatHex (r, g, b)"
  by (simp add: ref_formatHex_def hex2_def)

lemma ref_hex_stable:
  assumes "hex6 v"
  shows "hex_stable ref_culori ref_ops (formatColor_of ref_culori ref_ops HEX ver (Some v))"
proof -
  from assms obtain r g b where p: "ref_parse v = Some (r, g, b)"
    by (auto simp: hex6_def ref_parse_def split: list.splits)
  then have f: "formatColor_of ref_culori ref_ops HEX ver (Some v) = ref_formatHex (r, g, b)"
    by (simp add: formatColor_of_def colorFormatter_def colorFormatter_try_def ref_culori_def)
  have "colorFormatter ref_culori ref_ops (ref_formatHex (r, g, b)) HEX V3 = ref_formatHex (r, g, b)"
    by (simp add: colorFormatter_def colorFormatter_try_def ref_culori_def ref_parse_formatHex
        ref_formatHex_min)
  then show ?thesis
    unfolding f by (simp add: hex_stable_def ref_formatHex_literal)
qed

text \<open>
  Token values that come first in the entries of an object literal which overrides
  another token set.
\<close>

lemma overriding_entries:
  assumes "set keys \<subseteq> fst ` set entries" and "list_all P (map snd entries)"
  shows "\<forall>key \<in> set keys. \<exists>v. (m ++ map_of (entries @ others)) key = Some v \<and> P v"
proof
  fix key
  assume "key \<in> set keys"
  with assms(1) obtain v where v: "map_of entries key = Some v"
    by (metis domD dom_map_of_conv_image_fst subsetD)
  then have "(key, v) \<in> set entries"
    by (rule map_of_SomeD)
  with assms(2) have "P v"
    by (auto simp: list_all_iff)
  moreover have "(m ++ map_of (entries @ others)) key = Some v"
    using v by (simp add: map_add_Some_iff)
  ultimately show "\<exists>v. (m ++ map_of (entries @ others)) key = Some v \<and> P v"
    by simp
qed

text \<open>The preset \<open>t3-chat\<close>, resolved: its colours are six-digit hex literals.\<close>

definition t3_chat_light :: ThemeStyleProps where
  "t3_chat_light = defaultLightThemeStyles ++ map_of preset_t3_chat_light"

definition t3_chat_dark :: ThemeStyleProps where
  "t3_chat_dark = defaultDarkThemeStyles ++ map_of preset_t3_chat_dark"

definition t3_chat_state :: ThemeEditorState where
  "t3_chat_state =
    \<lparr>styles = \<lparr>light = Some t3_chat_light, dark = Some t3_chat_dark\<rparr>,
     currentMode = Light, preset = Some ''t3-chat''\<rparr>"

lemma t3_chat_state_applied:
  "applyThemePreset ''t3-chat'' (initialStore False)
    = Inr \<lparr>themeState = t3_chat_state, hasChangedThemeFromDefault = True\<rparr>"
proof -
  have "map_of presets ''t3-chat'' = Some preset_t3_chat"
    by (simp add: presets_def)
  then show ?thesis
    by (simp add: applyThemePreset_def getPresetThemeStyles_catalog initialStore_def
        defaultThemeState_def t3_chat_state_def t3_chat_light_def t3_chat_dark_def
        preset_t3_chat_def)
qed

lemma t3_chat_entries:
  "map fst (take 32 preset_t3_chat_light) = color_keys"
  "map fst (take 32 preset_t3_chat_dark) = color_keys"
  "list_all hex6 (map snd (take 32 preset_t3_chat_light))"
  "list_all hex6 (map snd (take 32 preset_t3_chat_dark))"
  by (simp_all add: preset_t3_chat_light_def preset_t3_chat_dark_def color_keys_def hex6_def
      is_hex_digit_def)

lemma t3_chat_colors:
  "\<forall>key \<in> set color_keys. \<exists>v. t3_chat_light key = Some v \<and> hex6 v"
  "\<forall>key \<in> set color_keys. \<exists>v. t3_chat_dark key = Some v \<and> hex6 v"
proof -
  have l: "set color_keys \<subseteq> fst ` set (take 32 preset_t3_chat_light)"
    and d: "set color_keys \<subseteq> fst ` set (take 32 preset_t3_chat_dark)"
    using t3_chat_entries(1, 2) by (metis list.set_map order_refl)+
  show "\<forall>key \<in> set color_keys. \<exists>v. t3_chat_light key = Some v \<and> hex6 v"
    using overriding_entries [OF l t3_chat_entries(3), of defaultLightThemeStyles
        "drop 32 preset_t3_chat_light"]
    by (simp add: t3_chat_light_def)
  show "\<forall>key \<in> set color_keys. \<exists>v. t3_chat_dark key = Some v \<and> hex6 v"
    using overriding_entries [OF d t3_chat_entries(4), of defaultDarkThemeStyles
        "drop 32 preset_t3_chat_dark"]
    by (simp add: t3_chat_dark_def)
qed

lemma t3_chat_hex_stable:
  "\<forall>key \<in> set color_keys.
     hex_stable ref_culori ref_ops (formatColor_of ref_culori ref_ops HEX ver (t3_chat_light key))"
  "\<forall>key \<in> set color_keys.
     hex_stable ref_culori ref_ops (formatColor_of ref_culori ref_ops HEX ver (t3_chat_dark key))"
  using t3_chat_colors ref_hex_stable by metis+


text \<open>The tokens of the resolved preset that the generator writes as they are.\<close>

lemma default_other_tokens:
  "defaultLightThemeStyles ''font-sans'' = Some DEFAULT_FONT_SANS"
  "defaultLightThemeStyles ''font-serif'' = Some DEFAULT_FONT_SERIF"
  "defaultLightThemeStyles ''font-mono'' = Some DEFAULT_FONT_MONO"
  "defaultLightThemeStyles ''radius'' = Some ''0.625rem''"
  "defaultLightThemeStyles ''shadow-color'' = Some ''hsl(0 0% 0%)''"
  "defaultLightThemeStyles ''shadow-opacity'' = Some ''0.1''"
  "defaultLightThemeStyles ''shadow-blur'' = Some ''3px''"
  "defaultLightThemeStyles ''shadow-spread'' = Some ''0px''"
  "defaultLightThemeStyles ''shadow-offset-x'' = Some ''0''"
  "defaultLightThemeStyles ''shadow-offset-y'' = Some ''1px''"
  "defaultLightThemeStyles ''letter-spacing'' = Some ''0em''"
  "defaultLightThemeStyles ''spacing'' = Some ''0.25rem''"
  by (simp_all add: defaultLightThemeStyles_def defaultLightThemeStyles_entries_def)


lemma not_overridden:
  assumes "key \<notin> set (map fst entries)"
  shows "(m ++ map_of entries) key = m key"
  using assms by (simp add: map_add_def map_of_eq_None_iff [THEN iffD2])

lemma t3_chat_keys:
  "map fst preset_t3_chat_light = color_keys @ [''radius'']"
  "map fst preset_t3_chat_dark = color_keys"
  by (simp_all add: preset_t3_chat_light_def preset_t3_chat_dark_def color_keys_def)

lemma other_keys:
  "''font-sans'' \<notin> set color_keys" "''font-serif'' \<notin> set color_keys"
  "''font-mono'' \<notin> set color_keys" "''radius'' \<notin> set color_keys"
  "''shadow-color'' \<notin> set color_keys" "''shadow-opacity'' \<notin> set color_keys"
  "''shadow-blur'' \<notin> set color_keys" "''shadow-spread'' \<notin> set color_keys"
  "''shadow-offset-x'' \<notin> set color_keys" "''shadow-offset-y'' \<notin> set color_keys"
  "''letter-spacing'' \<notin> set color_keys" "''spacing'' \<notin> set color_keys"
  by (simp_all add: color_keys_def)

lemma default_dark_other_tokens:
  "defaultDarkThemeStyles ''font-sans'' = Some DEFAULT_FONT_SANS"
  "defaultDarkThemeStyles ''font-serif'' = Some DEFAULT_FONT_SERIF"
  "defaultDarkThemeStyles ''font-mono'' = Some DEFAULT_FONT_MONO"
  "defaultDarkThemeStyles ''radius'' = Some ''0.625rem''"
  "defaultDarkThemeStyles ''shadow-color'' = Some ''hsl(0 0% 0%)''"
  "defaultDarkThemeStyles ''shadow-opacity'' = Some ''0.1''"
  "defaultDarkThemeStyles ''shadow-blur'' = Some ''3px''"
  "defaultDarkThemeStyles ''shadow-spread'' = Some ''0px''"
  "defaultDarkThemeStyles ''shadow-offset-x'' = Some ''0''"
  "defaultDarkThemeStyles ''shadow-offset-y'' = Some ''1px''"
  by (simp_all add: defaultDarkThemeStyles_def defaultDarkThemeStyles_entries_def
      default_other_tokens)

lemma t3_chat_other_tokens:
  "t3_chat_light ''font-sans'' = Some DEFAULT_FONT_SANS"
  "t3_chat_light ''font-serif'' = Some DEFAULT_FONT_SERIF"
  "t3_chat_light ''font-mono'' = Some DEFAULT_FONT_MONO"
  "t3_chat_light ''shadow-color'' = Some ''hsl(0 0% 0%)''"
  "t3_chat_light ''shadow-opacity'' = Some ''0.1''"
  "t3_chat_light ''shadow-blur'' = Some ''3px''"
  "t3_chat_light ''shadow-spread'' = Some ''0px''"
  "t3_chat_light ''shadow-offset-x'' = Some ''0''"
  "t3_chat_light ''shadow-offset-y'' = Some ''1px''"
  "t3_chat_light ''letter-spacing'' = Some ''0em''"
  "t3_chat_light ''spacing'' = Some ''0.25rem''"
  "t3_chat_dark ''font-sans'' = Some DEFAULT_FONT_SANS"
  "t3_chat_dark ''font-serif'' = Some DEFAULT_FONT_SERIF"
  "t3_chat_dark ''font-mono'' = Some DEFAULT_FONT_MONO"
  "t3_chat_dark ''radius'' = Some ''0.625rem''"
  "t3_chat_dark ''shadow-color'' = Some ''hsl(0 0% 0%)''"
  "t3_chat_dark ''shadow-opacity'' = Some ''0.1''"
  "t3_chat_dark ''shadow-blur'' = Some ''3px''"
  "t3_chat_dark ''shadow-spread'' = Some ''0px''"
  "t3_chat_dark ''shadow-offset-x'' = Some ''0''"
  "t3_chat_dark ''shadow-offset-y'' = Some ''1px''"
  by (simp_all add: t3_chat_light_def t3_chat_dark_def not_overridden t3_chat_keys other_keys
      default_other_tokens default_dark_other_tokens)

lemma t3_chat_light_radius: "t3_chat_light ''radius'' = Some ''0.5rem''"
proof -
  have "map_of (drop 32 preset_t3_chat_light) ''radius'' = Some ''0.5rem''"
    by (simp add: preset_t3_chat_light_def)
  moreover have "''radius'' \<notin> set (map fst (take 32 preset_t3_chat_light))"
    using t3_chat_entries(1) other_keys(4) by simp
  ultimately have "map_of (take 32 preset_t3_chat_light @ drop 32 preset_t3_chat_light)
      ''radius'' = Some ''0.5rem''"
    unfolding map_of_append by (simp add: map_add_def map_of_eq_None_iff [THEN iffD2])
  then show ?thesis
    by (simp add: t3_chat_light_def)
qed


definition default_shadow_tokens :: ShadowTokens where
  "default_shadow_tokens =
    \<lparr>shadowColor = ''hsl(0 0% 0%)'', shadowOpacity = ''0.1'', shadowBlur = ''3px'',
     shadowSpread = ''0px'', shadowOffsetX = ''0'', shadowOffsetY = ''1px''\<rparr>"

lemma t3_chat_shadow_map:
  "getShadowMap ref_culori ref_ops \<lparr>styles = styles t3_chat_state, currentMode = Light, preset = None\<rparr>
    = shadow_table ref_culori ref_ops default_shadow_tokens"
  "getShadowMap ref_culori ref_ops \<lparr>styles = styles t3_chat_state, currentMode = Dark, preset = None\<rparr>
    = shadow_table ref_culori ref_ops default_shadow_tokens"
  by (rule getShadowMap_entries;
      simp add: effective_styles_def t3_chat_state_def t3_chat_other_tokens
        default_shadow_tokens_def)+

lemma css_safe_append: "css_safe (a @ b) = (css_safe a \<and> css_safe b)"
  by (auto simp: css_safe_def)

lemma default_shadow_table:
  "shadow_table ref_culori ref_ops default_shadow_tokens =
    [(''shadow-2xs'', ''0 1px 3px 0px hsl(hsl(0 0% 0%) / 0.05)''),
     (''shadow-xs'', ''0 1px 3px 0px hsl(hsl(0 0% 0%) / 0.05)''),
     (''shadow-2xl'', ''0 1px 3px 0px hsl(hsl(0 0% 0%) / 0.25)''),
     (''shadow-sm'', ''0 1px 3px 0px hsl(hsl(0 0% 0%) / 0.10), 0 1px 2px -1px hsl(hsl(0 0% 0%) / 0.10)''),
     (''shadow'', ''0 1px 3px 0px hsl(hsl(0 0% 0%) / 0.10), 0 1px 2px -1px hsl(hsl(0 0% 0%) / 0.10)''),
     (''shadow-md'', ''0 1px 3px 0px hsl(hsl(0 0% 0%) / 0.10), 0 2px 4px -1px hsl(hsl(0 0% 0%) / 0.10)''),
     (''shadow-lg'', ''0 1px 3px 0px hsl(hsl(0 0% 0%) / 0.10), 0 4px 6px -1px hsl(hsl(0 0% 0%) / 0.10)''),
     (''shadow-xl'', ''0 1px 3px 0px hsl(hsl(0 0% 0%) / 0.10), 0 8px 10px -1px hsl(hsl(0 0% 0%) / 0.10)'')]"
proof -
  have "shadow_hsl ref_culori ref_ops default_shadow_tokens ''0.5'' = ''hsl(hsl(0 0% 0%) / 0.05)''"
    "shadow_hsl ref_culori ref_ops default_shadow_tokens ''1.0'' = ''hsl(hsl(0 0% 0%) / 0.10)''"
    "shadow_hsl ref_culori ref_ops default_shadow_tokens ''2.5'' = ''hsl(hsl(0 0% 0%) / 0.25)''"
    "spread_minus_one ref_ops default_shadow_tokens = ''-1px''"
    by (simp_all add: shadow_hsl_def spread_minus_one_def colorFormatter_def
        colorFormatter_try_def default_shadow_tokens_def ref_eval)
  moreover have "shadowOffsetX default_shadow_tokens = ''0''"
    "shadowOffsetY default_shadow_tokens = ''1px''" "shadowBlur default_shadow_tokens = ''3px''"
    "shadowSpread default_shadow_tokens = ''0px''"
    by (simp_all add: default_shadow_tokens_def)
  ultimately show ?thesis
    by (simp add: shadow_table_def single_layer_def double_layer_def shadow_term_def)
qed

lemma default_fonts_safe:
  "css_safe DEFAULT_FONT_SANS" "css_safe DEFAULT_FONT_SERIF" "css_safe DEFAULT_FONT_MONO"
  by (simp_all add: css_safe_def DEFAULT_FONT_SANS_def DEFAULT_FONT_SERIF_def DEFAULT_FONT_MONO_def)

lemma t3_chat_other_lines:
  "\<forall>line \<in> set (other_lines ref_culori ref_ops (styles t3_chat_state) Light t3_chat_light).
     css_safe (snd line)"
  "\<forall>line \<in> set (other_lines ref_culori ref_ops (styles t3_chat_state) Dark t3_chat_dark).
     css_safe (snd line)"
proof -
  have "\<forall>line \<in> set (shadow_table ref_culori ref_ops default_shadow_tokens). css_safe (snd line)"
    unfolding default_shadow_table by (simp add: css_safe_def)
  then have shadows: "css_safe (js_str (map_of (shadow_table ref_culori ref_ops default_shadow_tokens) name))"
    for name
    by (cases "map_of (shadow_table ref_culori ref_ops default_shadow_tokens) name")
      (auto simp: css_safe_def dest!: map_of_SomeD)
  have radius: "css_safe ''0.5rem''" "css_safe ''0.625rem''"
    by (simp_all add: css_safe_def)
  show "\<forall>line \<in> set (other_lines ref_culori ref_ops (styles t3_chat_state) Light t3_chat_light).
     css_safe (snd line)"
    by (simp add: other_lines_def t3_chat_shadow_map t3_chat_other_tokens t3_chat_light_radius
        default_other_tokens default_fonts_safe shadows radius)
  show "\<forall>line \<in> set (other_lines ref_culori ref_ops (styles t3_chat_state) Dark t3_chat_dark).
     css_safe (snd line)"
    by (simp add: other_lines_def t3_chat_shadow_map t3_chat_other_tokens
        default_fonts_safe shadows radius)
qed

text \<open>
  The amended C7 at the state that \<open>applyThemePreset\<close> makes of the preset
  \<open>t3-chat\<close>: the importer reads back the primary colour of each mode.
\<close>

theorem import_round_trip_witness:
  "\<exists>css. generateThemeCode ref_culori ref_ops (Some t3_chat_state) HEX V4 = Inr css
     \<and> lightColors (parseCssInput ref_culori ref_ops css) ''primary'' = Some ''#a84370''
     \<and> darkColors (parseCssInput ref_culori ref_ops css) ''primary'' = Some ''#a3004c''"
proof -
  have modes: "light (styles t3_chat_state) = Some t3_chat_light"
    "dark (styles t3_chat_state) = Some t3_chat_dark"
    by (simp_all add: t3_chat_state_def)
  have key: "''primary'' \<in> set color_keys"
    by (simp add: color_keys_def)
  have "map_of (take 32 preset_t3_chat_light) ''primary'' = Some ''#a84370''"
    "map_of (take 32 preset_t3_chat_dark) ''primary'' = Some ''#a3004c''"
    by (simp_all add: preset_t3_chat_light_def preset_t3_chat_dark_def)
  then have "map_of (take 32 preset_t3_chat_light @ drop 32 preset_t3_chat_light) ''primary''
      = Some ''#a84370''"
    "map_of (take 32 preset_t3_chat_dark @ drop 32 preset_t3_chat_dark) ''primary''
      = Some ''#a3004c''"
    unfolding map_of_append by (simp_all add: map_add_def)
  then have tokens: "t3_chat_light ''primary'' = Some ''#a84370''"
    "t3_chat_dark ''primary'' = Some ''#a3004c''"
    by (simp_all add: t3_chat_light_def t3_chat_dark_def)
  have written: "formatColor_of ref_culori ref_ops HEX V4 (Some ''#a84370'') = ''#a84370''"
    "formatColor_of ref_culori ref_ops HEX V4 (Some ''#a3004c'') = ''#a3004c''"
    by (simp_all add: formatColor_of_def colorFormatter_def colorFormatter_try_def ref_eval)
  from import_round_trip [OF modes t3_chat_hex_stable t3_chat_other_lines, of V4] key
  show ?thesis
    by (auto simp: tokens written)
qed


subsection \<open>A state on which the round trip fails\<close>

text \<open>
  A font value that closes its own declaration and opens another one: the editor keeps
  it as it is, the generator writes it as it is, and the importer reads the second
  declaration as a colour.
\<close>

definition injected_font :: string where
  "injected_font = ''Inter; --background: #000000''"

definition injected_state :: ThemeEditorState where
  "injected_state =
    t3_chat_state\<lparr>styles := updateStyle (styles t3_chat_state) Light ''font-sans'' injected_font\<rparr>"

definition injected_css :: string where
  "injected_css =
    (case generateThemeCode ref_culori ref_ops (Some injected_state) HEX V4 of
       Inl e \<Rightarrow> [] | Inr css \<Rightarrow> css)"

lemma lines_text_append: "lines_text (xs @ ys) = lines_text xs @ lines_text ys"
  by (induction xs rule: lines_text.induct) simp_all

lemma lines_content:
  assumes "list_all good_line ((sep, name, val) # ls)"
  shows "trim (lines_text ((sep, name, val) # ls) @ ''\<newline>'') \<noteq> []"
    and "declarations (trim (lines_text ((sep, name, val) # ls) @ ''\<newline>''))
      = map line_declaration ((sep, name, val) # ls)"
proof -
  have sep: "list_all is_space sep"
    using assms by (simp add: good_line_def)
  have t: "trim (lines_text ((sep, name, val) # ls) @ ''\<newline>'') = lines_text (([], name, val) # ls)"
    by (rule trim_block [OF sep])
  show "trim (lines_text ((sep, name, val) # ls) @ ''\<newline>'') \<noteq> []"
    unfolding t by simp
  have "list_all good_line (([], name, val) # ls)"
    using assms by (simp add: good_line_def)
  from declarations_lines [OF this, of "[]"]
  have "declarations (lines_text (([], name, val) # ls)) = map line_declaration (([], name, val) # ls)"
    by (simp add: declarations.simps)
  also have "\<dots> = map line_declaration ((sep, name, val) # ls)"
    by (simp add: line_declaration_def)
  finally show "declarations (trim (lines_text ((sep, name, val) # ls) @ ''\<newline>''))
      = map line_declaration ((sep, name, val) # ls)"
    unfolding t .
qed

lemma injected_state_modes:
  "light (styles injected_state) = Some (t3_chat_light(''font-sans'' \<mapsto> injected_font))"
  "dark (styles injected_state) = Some (t3_chat_dark(''font-sans'' \<mapsto> injected_font))"
  by (simp_all add: injected_state_def updateStyle_def COMMON_STYLES_def t3_chat_state_def)

lemma injected_shadow_map:
  "getShadowMap ref_culori ref_ops \<lparr>styles = styles injected_state, currentMode = Light, preset = None\<rparr>
    = shadow_table ref_culori ref_ops default_shadow_tokens"
  by (rule getShadowMap_entries;
      simp add: effective_styles_def injected_state_modes t3_chat_other_tokens
        default_shadow_tokens_def)

lemma injected_other_lines:
  "other_lines ref_culori ref_ops (styles injected_state) Light
      (t3_chat_light(''font-sans'' \<mapsto> injected_font))
    = (''font-sans'', injected_font)
      # tl (other_lines ref_culori ref_ops (styles t3_chat_state) Light t3_chat_light)"
  by (simp add: other_lines_def injected_shadow_map t3_chat_shadow_map t3_chat_other_tokens
      t3_chat_light_radius default_other_tokens)

lemma t3_chat_other_lines_first:
  "other_lines ref_culori ref_ops (styles t3_chat_state) Light t3_chat_light
    = (''font-sans'', DEFAULT_FONT_SANS)
      # tl (other_lines ref_culori ref_ops (styles t3_chat_state) Light t3_chat_light)"
  by (simp add: other_lines_def t3_chat_other_tokens)

lemma injected_color_lines:
  "color_lines (t3_chat_light(''font-sans'' \<mapsto> injected_font)) formatColor
    = color_lines t3_chat_light formatColor"
  using other_keys(1) by (auto simp: color_lines_def)

lemma injected_font_lines:
  "lines_text (indented [(''font-sans'', injected_font)])
    = lines_text [(''\<newline>  '', ''font-sans'', ''Inter''), ('' '', ''background'', ''#000000'')]"
  by (simp add: indented_def injected_font_def)

text \<open>
  C7 as stated fails at this state: the light set holds the background \<open>#faf5fa\<close>, the
  generator writes it as it is, and the importer returns \<open>#000000\<close> for the background
  of the light mode.
\<close>

theorem import_round_trip_counterexample:
  "generateThemeCode ref_culori ref_ops (Some injected_state) HEX V4 = Inr injected_css
   \<and> object_spread (light (styles injected_state)) ''background'' = Some ''#faf5fa''
   \<and> formatColor_of ref_culori ref_ops HEX V4 (Some ''#faf5fa'') = ''#faf5fa''
   \<and> lightColors (parseCssInput ref_culori ref_ops injected_css) ''background'' = Some ''#000000''"
proof -
  let ?fc = "formatColor_of ref_culori ref_ops HEX V4"
  let ?L = "block_lines ref_culori ref_ops (styles injected_state) Light
    (t3_chat_light(''font-sans'' \<mapsto> injected_font)) ?fc"
  let ?D = "block_lines ref_culori ref_ops (styles injected_state) Dark
    (t3_chat_dark(''font-sans'' \<mapsto> injected_font)) ?fc"
  let ?colors = "indented (color_lines t3_chat_light ?fc)"
  let ?others = "indented (tl (other_lines ref_culori ref_ops (styles t3_chat_state) Light t3_chat_light))"
  let ?before = "?colors @ [(''\<newline>  '', ''font-sans'', ''Inter'')]"
  let ?lines = "?before @ ('' '', ''background'', ''#000000'') # ?others"
  obtain rest where css: "generateThemeCode ref_culori ref_ops (Some injected_state) HEX V4 =
    Inr ('':root {'' @ lines_text ?L @ ''\<newline>}\<newline>\<newline>'' @ ''.dark {'' @ lines_text ?D
         @ ''\<newline>}'' @ rest)"
    using generateThemeCode_shape [OF injected_state_modes] by blast
  have written: "lines_text ?L = lines_text ?lines"
    using injected_font_lines
    by (simp add: block_lines_def injected_other_lines injected_color_lines indented_def
        lines_text_append)
  have hex: "\<forall>key \<in> set color_keys. hex_literal (?fc (t3_chat_light key))"
    using t3_chat_hex_stable(1) by (simp add: hex_stable_def)
  note t3 = block_lines_good [OF hex t3_chat_other_lines(1)]
  have t3_lines: "block_lines ref_culori ref_ops (styles t3_chat_state) Light t3_chat_light ?fc
    = ?colors @ (''\<newline>  '', ''font-sans'', DEFAULT_FONT_SANS) # ?others"
    unfolding block_lines_def by (subst t3_chat_other_lines_first) (simp add: indented_def)
  have good_parts: "list_all good_line ?colors" "list_all good_line ?others"
    and brace_parts: "CHR ''}'' \<notin> set (lines_text ?colors)" "CHR ''}'' \<notin> set (lines_text ?others)"
    using t3(1, 3) unfolding t3_lines by (simp_all add: lines_text_append)
  have good: "list_all good_line ?lines"
    using good_parts by (simp add: good_line_def good_name_def is_space_def)
  have brace: "CHR ''}'' \<notin> set (lines_text ?lines)"
    using brace_parts by (simp add: lines_text_append)
  obtain val more_lines where first: "?lines = (''\<newline>  '', ''background'', val) # more_lines"
    by (simp add: indented_def color_lines_def color_keys_def)
  note content = lines_content [OF good [unfolded first]]
  have root: "extractCssBlockContent ('':root {'' @ lines_text ?lines @ ''\<newline>}''
        @ (''\<newline>\<newline>'' @ ''.dark {'' @ lines_text ?D @ ''\<newline>}'' @ rest)) '':root''
      = Some (trim (lines_text ?lines @ ''\<newline>''))"
    using brace content(1) unfolding first [symmetric] by (rule extract_root_block)
  have names: "''background'' \<notin> set (map (\<lambda>l. fst (snd l)) ?others)"
  proof -
    have "set (map fst (tl (other_lines ref_culori ref_ops (styles t3_chat_state) Light t3_chat_light)))
        \<subseteq> set other_names"
      using other_lines_names [of ref_culori ref_ops "styles t3_chat_state" Light t3_chat_light]
      by (subst (asm) t3_chat_other_lines_first) auto
    moreover have "''background'' \<notin> set other_names"
      by (simp add: other_names_def)
    ultimately show ?thesis
      by (auto simp: indented_def)
  qed
  have key: "''background'' \<in> set color_keys"
    by (simp add: color_keys_def)
  have black: "hex_stable ref_culori ref_ops ''#000000''"
    using ref_hex_stable [of "''#000000''" V3]
    by (simp add: hex6_def is_hex_digit_def formatColor_of_def colorFormatter_def
        colorFormatter_try_def ref_eval)
  have "fold (parseDeclaration ref_culori ref_ops variableNames) (map line_declaration ?lines)
      Map.empty ''background'' = Some ''#000000''"
    by (rule fold_parseDeclaration_color [OF good names key black])
  then have parsed: "lightColors (parseCssInput ref_culori ref_ops
      ('':root {'' @ lines_text ?L @ ''\<newline>}\<newline>\<newline>'' @ ''.dark {'' @ lines_text ?D
         @ ''\<newline>}'' @ rest)) ''background'' = Some ''#000000''"
    using root content(2) unfolding first [symmetric] written
    by (simp add: parseCssInput_def parseColorVariables_def Let_def)
  have "map_of (take 32 preset_t3_chat_light) ''background'' = Some ''#faf5fa''"
    by (simp add: preset_t3_chat_light_def)
  then have "map_of (take 32 preset_t3_chat_light @ drop 32 preset_t3_chat_light) ''background''
      = Some ''#faf5fa''"
    unfolding map_of_append by (simp add: map_add_def)
  then have original: "object_spread (light (styles injected_state)) ''background'' = Some ''#faf5fa''"
    by (simp add: injected_state_modes t3_chat_light_def)
  have emitted: "?fc (Some ''#faf5fa'') = ''#faf5fa''"
    by (simp add: formatColor_of_def colorFormatter_def colorFormatter_try_def ref_eval)
  show ?thesis
    using parsed original emitted by (simp add: injected_css_def css)
qed

end
